theory Spec2Isabelle
  imports Complex_Main "HOL-Library.Multiset"
begin

section \<open>EasyPM backend: activity log and reporting\<close>

text \<open>
  A shallow embedding of the controllers of the EasyPM backend that write and read the
  project activity log (projectsController, tasksController, projectLogsController), of
  the reporting controller, and of the middleware and routes in front of them.

  Conventions of the embedding.
  \<^item> An ObjectId is a natural number; \<open>toString()\<close> of an id is the id itself, so two ids
    have the same text exactly when they are equal. Ids are taken in canonical form: a
    request that spells an id in another way (upper-case hexadecimal digits) is outside
    the model.
  \<^item> A date is a number of milliseconds. \<open>Date.now()\<close> reads the field \<open>clock\<close> of the
    world, which stays fixed while one request is handled.
  \<^item> A JavaScript \<open>Number\<close> holding a count is a \<open>nat\<close>. One holding an amount of money is
    the rational value of an IEEE double, and arithmetic on it rounds as doubles do. A
    field that may be \<open>undefined\<close> is an \<open>option\<close>.
  \<^item> A request body is represented at the types the route validators accept. The
    progress of a project update is a JSON number or a string of digits, since the
    validator \<open>isInt\<close> accepts both and leaves the value as it came; its start date, which
    the update route does not validate, is a date or any other text.
  \<^item> Reads and writes of the Project, Task and User collections succeed, except that
    \<open>save()\<close> of an updated project throws when an assignment could not be cast. A write
    to the ProjectLog collection runs the schema validation of the model and can then be
    rejected by the storage: \<open>log_faults\<close> lists, for the coming append attempts, whether
    the storage rejects them.
  \<^item> \<open>trace\<close> records the order of the writes and of the log append attempts.
\<close>

subsection \<open>Documents\<close>

type_synonym objectid = nat
type_synonym date = nat

datatype json =
    JNull
  | JStr string
  | JNum rat
  | JId objectid
  | JArr "json list"
  | JObj "(string \<times> json) list"

text \<open>
  Modelled from the spec: \<open>models/User.js\<close> is not among the sources. A user has a
  name, an email, a role (Administrator, Project Manager or Collaborator) and the
  projects assigned to them; these are also the fields the controllers read and write.
\<close>

record user =
  u_id :: objectid
  u_name :: string
  u_email :: string
  u_role :: string
  u_assignedProjects :: "objectid list"

record project =
  p_id :: objectid
  p_name :: string
  p_description :: "string option"
  p_status :: string
  p_progress :: nat
  p_team :: "objectid list"
  p_startDate :: date
  p_deadline :: "date option"
  p_methodology :: string
  p_budget :: "rat option"
  p_sprintDuration :: "nat option"
  p_wipLimit :: "nat option"
  p_phases :: "(string \<times> date) list"
  p_valueGoals :: "string option"
  p_createdBy :: objectid
  p_lastUpdate :: date

record attachment =
  a_name :: string
  a_url :: string
  a_type :: "string option"
  a_uploadedAt :: date

record comment =
  c_author :: objectid
  c_text :: string
  c_timestamp :: date

record task =
  t_id :: objectid
  t_title :: string
  t_description :: "string option"
  t_project :: objectid
  t_status :: string
  t_priority :: string
  t_assignee :: "objectid option"
  t_dueDate :: "date option"
  t_storyPoints :: "nat option"
  t_phase :: "string option"
  t_attachments :: "attachment list"
  t_comments :: "comment list"
  t_createdAt :: date
  t_updatedAt :: date

record projectLog =
  l_id :: objectid
  l_project :: objectid
  l_user :: "objectid option"
  l_action :: string
  l_details :: json
  l_timestamp :: date

subsection \<open>The world: collections, clock, faults and trace\<close>

datatype dbwrite =
    Project_save_op
  | Project_deleteOne_op
  | Task_save_op
  | Task_findByIdAndDelete_op
  | Task_deleteMany_op
  | User_updateMany_op

datatype event =
    Write dbwrite
  | LogAttempt string

record world =
  projects :: "project list"
  tasks :: "task list"
  users :: "user list"
  logs :: "projectLog list"
  next_id :: objectid
  clock :: date
  log_faults :: "bool list"
  trace :: "event list"
  console :: "string list"

datatype error =
    ValidationError string
  | StorageError
  | TypeError string
  | CastError

subsection \<open>Asynchronous code with exceptions\<close>

text \<open>
  An \<open>async\<close> function is a function of the world that returns a value or throws, and
  the world it leaves behind (what was written before a throw stays written).
\<close>

type_synonym 'a io = "world \<Rightarrow> (error + 'a) \<times> world"

definition return_io :: "'a \<Rightarrow> 'a io" where
  "return_io x = (\<lambda>w. (Inr x, w))"

definition throw_io :: "error \<Rightarrow> 'a io" where
  "throw_io e = (\<lambda>w. (Inl e, w))"

definition bind_io :: "'a io \<Rightarrow> ('a \<Rightarrow> 'b io) \<Rightarrow> 'b io" where
  "bind_io m f = (\<lambda>w. case m w of (Inl e, w') \<Rightarrow> (Inl e, w') | (Inr x, w') \<Rightarrow> f x w')"

definition try_catch :: "'a io \<Rightarrow> (error \<Rightarrow> 'a io) \<Rightarrow> 'a io" where
  "try_catch m h = (\<lambda>w. case m w of (Inl e, w') \<Rightarrow> h e w' | (Inr x, w') \<Rightarrow> (Inr x, w'))"

definition when_io :: "bool \<Rightarrow> 'a io \<Rightarrow> unit io" where
  "when_io c m = (if c then bind_io m (\<lambda>_. return_io ()) else return_io ())"

definition Date_now :: "date io" where
  "Date_now = (\<lambda>w. (Inr (clock w), w))"

definition new_ObjectId :: "objectid io" where
  "new_ObjectId = (\<lambda>w. (Inr (next_id w), w\<lparr>next_id := Suc (next_id w)\<rparr>))"

definition emit :: "event \<Rightarrow> unit io" where
  "emit e = (\<lambda>w. (Inr (), w\<lparr>trace := trace w @ [e]\<rparr>))"

definition console_error :: "string \<Rightarrow> unit io" where
  "console_error msg = (\<lambda>w. (Inr (), w\<lparr>console := console w @ [msg]\<rparr>))"

subsection \<open>models/ProjectLog.js\<close>

definition ProjectLog_action_enum :: "string list" where
  "ProjectLog_action_enum =
     [''Created'', ''Updated'', ''Deleted'', ''Status Changed'', ''Team Changed'',
      ''Progress Updated'', ''Task Created'', ''Task Updated'', ''Task Status Changed'',
      ''Task Reassigned'', ''Task Deleted'', ''Comment Added'']"

definition new_ProjectLog ::
  "objectid \<Rightarrow> objectid option \<Rightarrow> string \<Rightarrow> json \<Rightarrow> projectLog io" where
  \<comment> \<open>\<open>new ProjectLog({project, user, action, details})\<close>: the document gets its \<open>_id\<close> and
      the default of \<open>timestamp\<close>, \<open>Date.now\<close>.\<close>
  "new_ProjectLog projectId userId action details =
     bind_io new_ObjectId (\<lambda>i.
     bind_io Date_now (\<lambda>now.
     return_io \<lparr>l_id = i, l_project = projectId, l_user = userId, l_action = action,
                l_details = details, l_timestamp = now\<rparr>))"

definition ProjectLog_validate :: "projectLog \<Rightarrow> unit io" where
  \<comment> \<open>\<open>action\<close> is required and restricted by \<open>enum\<close>; \<open>project\<close> is required and is always
      given by the callers.\<close>
  "ProjectLog_validate entry =
     (if l_action entry \<in> set ProjectLog_action_enum then return_io ()
      else throw_io (ValidationError ''action''))"

definition ProjectLog_insert :: "projectLog \<Rightarrow> unit io" where
  \<comment> \<open>The write to the collection: the storage accepts it unless the next entry of
      \<open>log_faults\<close> says otherwise.\<close>
  "ProjectLog_insert entry = (\<lambda>w.
     case log_faults w of
       [] \<Rightarrow> (Inr (), w\<lparr>logs := logs w @ [entry]\<rparr>)
     | b # bs \<Rightarrow>
         if b then (Inl StorageError, w\<lparr>log_faults := bs\<rparr>)
         else (Inr (), w\<lparr>logs := logs w @ [entry], log_faults := bs\<rparr>))"

definition ProjectLog_save :: "projectLog \<Rightarrow> unit io" where
  "ProjectLog_save entry =
     bind_io (emit (LogAttempt (l_action entry))) (\<lambda>_.
     bind_io (ProjectLog_validate entry) (\<lambda>_.
     ProjectLog_insert entry))"

subsection \<open>controllers/projectLogsController.js: createProjectLog\<close>

definition createProjectLog ::
  "objectid \<Rightarrow> objectid option \<Rightarrow> string \<Rightarrow> json \<Rightarrow> projectLog option io" where
  "createProjectLog projectId userId action details =
     try_catch
       (bind_io (new_ProjectLog projectId userId action details) (\<lambda>entry.
        bind_io (ProjectLog_save entry) (\<lambda>_.
        return_io (Some entry))))
       (\<lambda>err.
        bind_io (console_error ''Error creating project log:'') (\<lambda>_.
        return_io None))"

subsection \<open>Responses\<close>

record populated_log =
  v_id :: objectid
  v_project :: "(objectid \<times> string) option"
  v_user :: "(objectid \<times> string \<times> string) option"
  v_action :: string
  v_details :: json
  v_timestamp :: date

record member_stats =
  ms_name :: string
  ms_email :: string
  ms_tasksCompleted :: nat

record report =
  r_status :: string
  r_deadline :: "date option"
  r_progress :: nat
  r_budget_used :: rat
  r_budget_total :: rat
  r_todo :: nat
  r_inProgress :: nat
  r_completed :: nat
  r_team :: "member_stats list"

datatype body =
    Message string
  | ProjectDoc project
  | PopulatedProject project "(objectid \<times> string \<times> string \<times> string) list"
  | TaskDoc task
  | PopulatedTask task "(objectid \<times> string) option list"
  | Logs "populated_log list"
  | Report report
  | NoBody

record response =
  res_status :: nat
  res_body :: body

definition respond :: "nat \<Rightarrow> body \<Rightarrow> response io" where
  "respond code b = return_io \<lparr>res_status = code, res_body = b\<rparr>"

definition server_error :: "error \<Rightarrow> response io" where
  \<comment> \<open>\<open>catch (error) { res.status(500).json({ message: 'Server error' }) }\<close>\<close>
  "server_error e = respond 500 (Message ''Server error'')"

subsection \<open>The collections\<close>

definition upsert :: "('a \<Rightarrow> objectid) \<Rightarrow> 'a \<Rightarrow> 'a list \<Rightarrow> 'a list" where
  \<comment> \<open>\<open>doc.save()\<close>: a stored document with the same \<open>_id\<close> is replaced, a new one is added.\<close>
  "upsert key d ds =
     (if list_ex (\<lambda>x. key x = key d) ds then map (\<lambda>x. if key x = key d then d else x) ds
      else ds @ [d])"

definition Project_findById :: "objectid \<Rightarrow> project option io" where
  "Project_findById i = (\<lambda>w. (Inr (find (\<lambda>p. p_id p = i) (projects w)), w))"

definition Project_save :: "project \<Rightarrow> unit io" where
  "Project_save p =
     bind_io (emit (Write Project_save_op)) (\<lambda>_ w.
     (Inr (), w\<lparr>projects := upsert p_id p (projects w)\<rparr>))"

definition Project_deleteOne :: "project \<Rightarrow> unit io" where
  "Project_deleteOne p =
     bind_io (emit (Write Project_deleteOne_op)) (\<lambda>_ w.
     (Inr (), w\<lparr>projects := filter (\<lambda>q. p_id q \<noteq> p_id p) (projects w)\<rparr>))"

definition User_updateMany :: "(user \<Rightarrow> bool) \<Rightarrow> (user \<Rightarrow> user) \<Rightarrow> unit io" where
  "User_updateMany sel upd =
     bind_io (emit (Write User_updateMany_op)) (\<lambda>_ w.
     (Inr (), w\<lparr>users := map (\<lambda>u. if sel u then upd u else u) (users w)\<rparr>))"

definition addToSet_assignedProjects :: "objectid \<Rightarrow> user \<Rightarrow> user" where
  "addToSet_assignedProjects pid u =
     (if pid \<in> set (u_assignedProjects u) then u
      else u\<lparr>u_assignedProjects := u_assignedProjects u @ [pid]\<rparr>)"

definition pull_assignedProjects :: "objectid \<Rightarrow> user \<Rightarrow> user" where
  "pull_assignedProjects pid u = u\<lparr>u_assignedProjects := removeAll pid (u_assignedProjects u)\<rparr>"

definition Task_findById :: "objectid \<Rightarrow> task option io" where
  "Task_findById i = (\<lambda>w. (Inr (find (\<lambda>t. t_id t = i) (tasks w)), w))"

definition Task_find_project :: "objectid \<Rightarrow> task list io" where
  \<comment> \<open>\<open>Task.find({ project: projectId })\<close>\<close>
  "Task_find_project pid = (\<lambda>w. (Inr (filter (\<lambda>t. t_project t = pid) (tasks w)), w))"

definition Task_save :: "task \<Rightarrow> unit io" where
  "Task_save t =
     bind_io (emit (Write Task_save_op)) (\<lambda>_ w.
     (Inr (), w\<lparr>tasks := upsert t_id t (tasks w)\<rparr>))"

definition Task_findByIdAndDelete :: "objectid \<Rightarrow> unit io" where
  "Task_findByIdAndDelete i =
     bind_io (emit (Write Task_findByIdAndDelete_op)) (\<lambda>_ w.
     (Inr (), w\<lparr>tasks := filter (\<lambda>t. t_id t \<noteq> i) (tasks w)\<rparr>))"

definition Task_deleteMany :: "objectid \<Rightarrow> unit io" where
  \<comment> \<open>\<open>Task.deleteMany({ project: id })\<close>\<close>
  "Task_deleteMany pid =
     bind_io (emit (Write Task_deleteMany_op)) (\<lambda>_ w.
     (Inr (), w\<lparr>tasks := filter (\<lambda>t. t_project t \<noteq> pid) (tasks w)\<rparr>))"

definition User_findById :: "objectid \<Rightarrow> user option io" where
  "User_findById i = (\<lambda>w. (Inr (find (\<lambda>u. u_id u = i) (users w)), w))"

definition User_find_all :: "user list io" where
  \<comment> \<open>the User collection, as a \<open>populate\<close> reads it\<close>
  "User_find_all = (\<lambda>w. (Inr (users w), w))"

definition populate_team ::
  "user list \<Rightarrow> objectid list \<Rightarrow> (objectid \<times> string \<times> string \<times> string) list" where
  \<comment> \<open>\<open>.populate('team', 'name email role')\<close>: each reference is replaced by the user it
      names; a reference to a user that is no longer stored is dropped.\<close>
  "populate_team us team =
     List.map_filter
       (\<lambda>i. map_option (\<lambda>u. (u_id u, u_name u, u_email u, u_role u)) (find (\<lambda>u. u_id u = i) us))
       team"

subsection \<open>JavaScript values\<close>

definition truthy_str :: "string option \<Rightarrow> bool" where
  \<comment> \<open>\<open>undefined\<close> and the empty string are falsy\<close>
  "truthy_str s = (case s of None \<Rightarrow> False | Some x \<Rightarrow> 0 < length x)"

function decimal :: "nat \<Rightarrow> string" where
  \<comment> \<open>\<open>String(n)\<close> of a non-negative integer\<close>
  "decimal n =
     (if n < 10 then [''0123456789'' ! n]
      else decimal (n div 10) @ [''0123456789'' ! (n mod 10)])"
  by pat_completeness auto
termination
  by (relation "measure (\<lambda>n. n)") auto

datatype int_text =
    Plain nat
  | WithPlus nat
  | MinusZero

text \<open>
  The strings the validator \<open>isInt({ min: 0, ... })\<close> accepts: decimal digits without a
  leading zero, with a plus sign or without a sign, and \<open>-0\<close>.
\<close>

definition int_text_string :: "int_text \<Rightarrow> string" where
  "int_text_string t =
     (case t of Plain n \<Rightarrow> decimal n | WithPlus n \<Rightarrow> CHR ''+'' # decimal n | MinusZero \<Rightarrow> ''-0'')"

definition int_text_number :: "int_text \<Rightarrow> nat" where
  \<comment> \<open>\<open>Number(text)\<close>, the cast of the string to the schema type\<close>
  "int_text_number t = (case t of Plain n \<Rightarrow> n | WithPlus n \<Rightarrow> n | MinusZero \<Rightarrow> 0)"

datatype int_value =
    IntNumber nat
  | IntString int_text

definition truthy_int :: "int_value option \<Rightarrow> bool" where
  \<comment> \<open>\<open>undefined\<close>, the number \<open>0\<close> and the empty string are falsy; the string \<open>'0'\<close> is
      truthy\<close>
  "truthy_int v =
     (case v of
        None \<Rightarrow> False
      | Some (IntNumber n) \<Rightarrow> 0 < n
      | Some (IntString t) \<Rightarrow> 0 < length (int_text_string t))"

definition differs_from_number :: "int_value \<Rightarrow> nat \<Rightarrow> bool" where
  \<comment> \<open>\<open>v !== n\<close> for a stored number \<open>n\<close>: a string is never \<open>===\<close> a number\<close>
  "differs_from_number v n = (case v of IntNumber m \<Rightarrow> m \<noteq> n | IntString t \<Rightarrow> True)"

definition int_value_number :: "int_value \<Rightarrow> nat" where
  \<comment> \<open>the value a Number path of the schema takes when the value is assigned to it\<close>
  "int_value_number v = (case v of IntNumber n \<Rightarrow> n | IntString t \<Rightarrow> int_text_number t)"

definition json_int :: "int_value \<Rightarrow> json" where
  "json_int v = (case v of IntNumber n \<Rightarrow> JNum (of_nat n) | IntString t \<Rightarrow> JStr (int_text_string t))"

datatype date_value =
    DateValue date
  | NotADate string

definition json_str :: "string option \<Rightarrow> json" where
  "json_str s = (case s of None \<Rightarrow> JNull | Some x \<Rightarrow> JStr x)"

definition json_id :: "objectid option \<Rightarrow> json" where
  "json_id i = (case i of None \<Rightarrow> JNull | Some x \<Rightarrow> JId x)"

definition from_to :: "json \<Rightarrow> json \<Rightarrow> json" where
  \<comment> \<open>\<open>{ from: a, to: b }\<close>\<close>
  "from_to a b = JObj [(''from'', a), (''to'', b)]"

definition isAdminOrPM :: "user \<Rightarrow> bool" where
  "isAdminOrPM u = (u_role u = ''Administrator'' \<or> u_role u = ''Project Manager'')"

subsection \<open>controllers/projectsController.js\<close>

record project_body =
  b_name :: string
  b_description :: "string option"
  b_status :: "string option"
  b_progress :: "nat option"
  b_team :: "objectid list option"
  b_startDate :: date
  b_deadline :: "date option"
  b_methodology :: "string option"
  b_budget :: "rat option"
  b_sprintDuration :: "nat option"
  b_wipLimit :: "nat option"
  b_phases :: "(string \<times> date) list option"
  b_valueGoals :: "string option"

definition new_Project :: "objectid \<Rightarrow> date \<Rightarrow> objectid \<Rightarrow> project_body \<Rightarrow> project" where
  \<comment> \<open>\<open>new Project({...})\<close> with the defaults of the schema for the fields left out\<close>
  "new_Project i now creator b =
     \<lparr>p_id = i,
      p_name = b_name b,
      p_description = b_description b,
      p_status = (case b_status b of None \<Rightarrow> ''Active'' | Some s \<Rightarrow> s),
      p_progress = (case b_progress b of None \<Rightarrow> 0 | Some n \<Rightarrow> n),
      p_team = (case b_team b of None \<Rightarrow> [] | Some t \<Rightarrow> t),
      p_startDate = b_startDate b,
      p_deadline = b_deadline b,
      p_methodology = (case b_methodology b of None \<Rightarrow> ''None'' | Some m \<Rightarrow> m),
      p_budget = b_budget b,
      p_sprintDuration = b_sprintDuration b,
      p_wipLimit = b_wipLimit b,
      p_phases = (case b_phases b of None \<Rightarrow> [] | Some ps \<Rightarrow> ps),
      p_valueGoals = b_valueGoals b,
      p_createdBy = creator,
      p_lastUpdate = now\<rparr>"

definition createProject :: "user \<Rightarrow> project_body \<Rightarrow> response io" where
  "createProject req_user b =
     try_catch
       (bind_io new_ObjectId (\<lambda>i.
        bind_io Date_now (\<lambda>now.
        let project = new_Project i now (u_id req_user) b in
        bind_io (Project_save project) (\<lambda>_.
        bind_io
          (case b_team b of
             None \<Rightarrow> return_io ()
           | Some team \<Rightarrow>
               when_io (0 < length team)
                 (User_updateMany (\<lambda>u. u_id u \<in> set team)
                    (addToSet_assignedProjects (p_id project)))) (\<lambda>_.
        bind_io
          (createProjectLog (p_id project) (Some (u_id req_user)) ''Created''
             (JObj [(''name'', JStr (p_name project)),
                    (''description'', json_str (p_description project))])) (\<lambda>_.
        respond 201 (ProjectDoc project)))))))
       server_error"

definition getProject :: "user \<Rightarrow> objectid \<Rightarrow> response io" where
  "getProject req_user i =
     try_catch
       (bind_io (Project_findById i) (\<lambda>found.
        case found of
          None \<Rightarrow> respond 404 (Message ''Project not found'')
        | Some project \<Rightarrow>
            bind_io User_find_all (\<lambda>us.
            let team = populate_team us (p_team project);
                isTeamMember = list_ex (\<lambda>member. fst member = u_id req_user) team
            in if \<not> isAdminOrPM req_user \<and> \<not> isTeamMember
               then respond 403 (Message ''Access denied'')
               else respond 200 (PopulatedProject project team))))
       server_error"

record project_updates =
  upd_name :: "string option"
  upd_description :: "string option"
  upd_status :: "string option"
  upd_progress :: "int_value option"
  upd_team :: "objectid list option"
  upd_startDate :: "date_value option"
  upd_deadline :: "date option"
  upd_methodology :: "string option"
  upd_budget :: "rat option"
  upd_sprintDuration :: "nat option"
  upd_wipLimit :: "nat option"
  upd_phases :: "(string \<times> date) list option"
  upd_valueGoals :: "string option"

definition assign_opt :: "'a option \<Rightarrow> 'a \<Rightarrow> 'a" where
  \<comment> \<open>one property of \<open>Object.assign\<close>: a property of the source replaces the target's\<close>
  "assign_opt new old = (case new of None \<Rightarrow> old | Some x \<Rightarrow> x)"

definition assign_opt_field :: "'a option \<Rightarrow> 'a option \<Rightarrow> 'a option" where
  "assign_opt_field new old = (case new of None \<Rightarrow> old | Some x \<Rightarrow> Some x)"

definition Object_assign_project :: "project \<Rightarrow> project_updates \<Rightarrow> project" where
  \<comment> \<open>\<open>Object.assign(project, updates)\<close>: each value is cast to the type of its path; a
      value that cannot be cast leaves an error on the document, see \<open>assignment_errors\<close>\<close>
  "Object_assign_project p u =
     p\<lparr>p_name := assign_opt (upd_name u) (p_name p),
       p_description := assign_opt_field (upd_description u) (p_description p),
       p_status := assign_opt (upd_status u) (p_status p),
       p_progress := assign_opt (map_option int_value_number (upd_progress u)) (p_progress p),
       p_team := assign_opt (upd_team u) (p_team p),
       p_startDate :=
         (case upd_startDate u of Some (DateValue d) \<Rightarrow> d | _ \<Rightarrow> p_startDate p),
       p_deadline := assign_opt_field (upd_deadline u) (p_deadline p),
       p_methodology := assign_opt (upd_methodology u) (p_methodology p),
       p_budget := assign_opt_field (upd_budget u) (p_budget p),
       p_sprintDuration := assign_opt_field (upd_sprintDuration u) (p_sprintDuration p),
       p_wipLimit := assign_opt_field (upd_wipLimit u) (p_wipLimit p),
       p_phases := assign_opt (upd_phases u) (p_phases p),
       p_valueGoals := assign_opt_field (upd_valueGoals u) (p_valueGoals p)\<rparr>"

definition assignment_errors :: "project_updates \<Rightarrow> string list" where
  \<comment> \<open>the paths whose assigned value could not be cast\<close>
  "assignment_errors u = (case upd_startDate u of Some (NotADate s) \<Rightarrow> [''startDate''] | _ \<Rightarrow> [])"

definition Project_save_assigned :: "string list \<Rightarrow> project \<Rightarrow> unit io" where
  \<comment> \<open>\<open>project.save()\<close> of a document whose assignments left the errors \<open>errs\<close>: the
      validation throws on them before anything is written\<close>
  "Project_save_assigned errs p =
     (if 0 < length errs then throw_io (ValidationError (hd errs)) else Project_save p)"

definition name_changed :: "project \<Rightarrow> project_updates \<Rightarrow> bool" where
  \<comment> \<open>\<open>updates.name && updates.name !== project.name\<close>\<close>
  "name_changed p u = (truthy_str (upd_name u) \<and> upd_name u \<noteq> Some (p_name p))"

definition description_changed :: "project \<Rightarrow> project_updates \<Rightarrow> bool" where
  \<comment> \<open>\<open>updates.description && updates.description !== project.description\<close>\<close>
  "description_changed p u =
     (truthy_str (upd_description u) \<and> upd_description u \<noteq> p_description p)"

definition status_changed :: "project \<Rightarrow> project_updates \<Rightarrow> bool" where
  \<comment> \<open>\<open>updates.status && updates.status !== project.status\<close>\<close>
  "status_changed p u = (truthy_str (upd_status u) \<and> upd_status u \<noteq> Some (p_status p))"

definition progress_changed :: "project \<Rightarrow> project_updates \<Rightarrow> bool" where
  \<comment> \<open>\<open>updates.progress && updates.progress !== project.progress\<close>\<close>
  "progress_changed p u =
     (truthy_int (upd_progress u) \<and>
      (case upd_progress u of None \<Rightarrow> False | Some v \<Rightarrow> differs_from_number v (p_progress p)))"

definition project_changes :: "project \<Rightarrow> project_updates \<Rightarrow> (string \<times> json) list" where
  \<comment> \<open>the object \<open>changes\<close> as it stands when the handler reaches its last test\<close>
  "project_changes p u =
     (if name_changed p u
      then [(''name'', from_to (JStr (p_name p)) (json_str (upd_name u)))] else []) @
     (if description_changed p u
      then [(''description'', from_to (json_str (p_description p)) (json_str (upd_description u)))]
      else []) @
     (if status_changed p u
      then [(''status'', from_to (JStr (p_status p)) (json_str (upd_status u)))] else []) @
     (if progress_changed p u
      then [(''progress'', from_to (JNum (of_nat (p_progress p)))
                             (case upd_progress u of None \<Rightarrow> JNull | Some v \<Rightarrow> json_int v))]
      else [])"

definition updateProject :: "user \<Rightarrow> objectid \<Rightarrow> project_updates \<Rightarrow> response io" where
  "updateProject req_user i updates =
     try_catch
       (bind_io (Project_findById i) (\<lambda>found.
        case found of
          None \<Rightarrow> respond 404 (Message ''Project not found'')
        | Some project0 \<Rightarrow>
            let changes = project_changes project0 updates in
            bind_io
              (when_io (status_changed project0 updates)
                 (createProjectLog (p_id project0) (Some (u_id req_user)) ''Status Changed''
                    (from_to (JStr (p_status project0)) (json_str (upd_status updates))))) (\<lambda>_.
            bind_io
              (when_io (progress_changed project0 updates)
                 (createProjectLog (p_id project0) (Some (u_id req_user)) ''Progress Updated''
                    (from_to (JNum (of_nat (p_progress project0)))
                       (case upd_progress updates of None \<Rightarrow> JNull | Some v \<Rightarrow> json_int v))))
              (\<lambda>_.
            bind_io Date_now (\<lambda>now.
            let project = (Object_assign_project project0 updates)\<lparr>p_lastUpdate := now\<rparr> in
            bind_io (Project_save_assigned (assignment_errors updates) project) (\<lambda>_.
            bind_io
              (case upd_team updates of
                 None \<Rightarrow> return_io ()
               | Some team \<Rightarrow>
                   let currentTeam = p_team project;
                       newTeam = team;
                       addedMembers = filter (\<lambda>m. m \<notin> set currentTeam) newTeam;
                       removedMembers = filter (\<lambda>m. m \<notin> set newTeam) currentTeam
                   in
                   bind_io
                     (when_io (0 < length addedMembers \<or> 0 < length removedMembers)
                        (createProjectLog (p_id project) (Some (u_id req_user)) ''Team Changed''
                           (JObj [(''added'', JArr (map JId addedMembers)),
                                  (''removed'', JArr (map JId removedMembers))]))) (\<lambda>_.
                   bind_io
                     (User_updateMany
                        (\<lambda>u. p_id project \<in> set (u_assignedProjects u) \<and> u_id u \<notin> set team)
                        (pull_assignedProjects (p_id project))) (\<lambda>_.
                   User_updateMany (\<lambda>u. u_id u \<in> set team)
                     (addToSet_assignedProjects (p_id project))))) (\<lambda>_.
            bind_io
              (when_io (0 < length changes)
                 (createProjectLog (p_id project) (Some (u_id req_user)) ''Updated''
                    (JObj [(''changes'', JObj changes)]))) (\<lambda>_.
            respond 200 (ProjectDoc project)))))))))
       server_error"

definition deleteProject :: "user \<Rightarrow> objectid \<Rightarrow> response io" where
  "deleteProject req_user i =
     try_catch
       (bind_io (Project_findById i) (\<lambda>found.
        case found of
          None \<Rightarrow> respond 404 (Message ''Project not found'')
        | Some project \<Rightarrow>
            bind_io
              (createProjectLog (p_id project) (Some (u_id req_user)) ''Deleted''
                 (JObj [(''name'', JStr (p_name project)), (''id'', JId (p_id project))])) (\<lambda>_.
            bind_io
              (User_updateMany (\<lambda>u. p_id project \<in> set (u_assignedProjects u))
                 (pull_assignedProjects (p_id project))) (\<lambda>_.
            bind_io (Task_deleteMany i) (\<lambda>_.
            bind_io (Project_deleteOne project) (\<lambda>_.
            respond 204 NoBody))))))
       server_error"

subsection \<open>controllers/tasksController.js\<close>

record task_body =
  tb_title :: string
  tb_description :: "string option"
  tb_status :: "string option"
  tb_priority :: "string option"
  tb_assignee :: "objectid option"
  tb_dueDate :: "date option"
  tb_storyPoints :: "nat option"
  tb_phase :: "string option"

definition new_Task :: "objectid \<Rightarrow> date \<Rightarrow> objectid \<Rightarrow> task_body \<Rightarrow> task" where
  \<comment> \<open>\<open>new Task({...})\<close> with the defaults of the schema for the fields left out\<close>
  "new_Task i now projectId b =
     \<lparr>t_id = i,
      t_title = tb_title b,
      t_description = tb_description b,
      t_project = projectId,
      t_status = (case tb_status b of None \<Rightarrow> ''Backlog'' | Some s \<Rightarrow> s),
      t_priority = (case tb_priority b of None \<Rightarrow> ''Medium'' | Some x \<Rightarrow> x),
      t_assignee = tb_assignee b,
      t_dueDate = tb_dueDate b,
      t_storyPoints = tb_storyPoints b,
      t_phase = tb_phase b,
      t_attachments = [],
      t_comments = [],
      t_createdAt = now,
      t_updatedAt = now\<rparr>"

definition isTeamMember :: "user \<Rightarrow> project \<Rightarrow> bool" where
  \<comment> \<open>\<open>project.team.some(member => member.toString() === req.user._id.toString())\<close>\<close>
  "isTeamMember req_user project = list_ex (\<lambda>member. member = u_id req_user) (p_team project)"

definition createTask :: "user \<Rightarrow> objectid \<Rightarrow> task_body \<Rightarrow> response io" where
  "createTask req_user projectId b =
     try_catch
       (bind_io (Project_findById projectId) (\<lambda>found.
        case found of
          None \<Rightarrow> respond 404 (Message ''Project not found'')
        | Some project \<Rightarrow>
            if \<not> isAdminOrPM req_user \<and> \<not> isTeamMember req_user project
            then respond 403 (Message ''Access denied'')
            else
              bind_io new_ObjectId (\<lambda>i.
              bind_io Date_now (\<lambda>now.
              let task = new_Task i now projectId b in
              bind_io (Task_save task) (\<lambda>_.
              bind_io
                (createProjectLog projectId (Some (u_id req_user)) ''Task Created''
                   (JObj [(''taskId'', JId (t_id task)), (''title'', JStr (t_title task)),
                          (''assignee'', json_id (t_assignee task))])) (\<lambda>_.
              respond 201 (TaskDoc task)))))))
       server_error"

record task_updates =
  tu_title :: "string option"
  tu_description :: "string option"
  tu_status :: "string option"
  tu_priority :: "string option"
  tu_assignee :: "objectid option"
  tu_dueDate :: "date option"
  tu_storyPoints :: "nat option"
  tu_phase :: "string option"

definition Object_assign_task :: "task \<Rightarrow> task_updates \<Rightarrow> task" where
  \<comment> \<open>\<open>Object.assign(task, updates)\<close>\<close>
  "Object_assign_task t u =
     t\<lparr>t_title := assign_opt (tu_title u) (t_title t),
       t_description := assign_opt_field (tu_description u) (t_description t),
       t_status := assign_opt (tu_status u) (t_status t),
       t_priority := assign_opt (tu_priority u) (t_priority t),
       t_assignee := assign_opt_field (tu_assignee u) (t_assignee t),
       t_dueDate := assign_opt_field (tu_dueDate u) (t_dueDate t),
       t_storyPoints := assign_opt_field (tu_storyPoints u) (t_storyPoints t),
       t_phase := assign_opt_field (tu_phase u) (t_phase t)\<rparr>"

definition isAssigned :: "user \<Rightarrow> task \<Rightarrow> bool" where
  \<comment> \<open>\<open>task.assignee && task.assignee.toString() === req.user._id.toString()\<close>\<close>
  "isAssigned req_user t = (t_assignee t = Some (u_id req_user))"

definition task_status_changed :: "task \<Rightarrow> task_updates \<Rightarrow> bool" where
  \<comment> \<open>\<open>updates.status && updates.status !== task.status\<close>\<close>
  "task_status_changed t u = (truthy_str (tu_status u) \<and> tu_status u \<noteq> Some (t_status t))"

definition task_assignee_changed :: "task \<Rightarrow> task_updates \<Rightarrow> bool" where
  \<comment> \<open>\<open>updates.assignee && (!task.assignee ||
        updates.assignee.toString() !== task.assignee.toString())\<close>\<close>
  "task_assignee_changed t u =
     (case tu_assignee u of
        None \<Rightarrow> False
      | Some a \<Rightarrow> (case t_assignee t of None \<Rightarrow> True | Some b \<Rightarrow> a \<noteq> b))"

definition task_changes :: "task \<Rightarrow> task_updates \<Rightarrow> (string \<times> json) list" where
  \<comment> \<open>the object \<open>changes\<close> as it stands when the handler reaches its last test\<close>
  "task_changes t u =
     (if task_status_changed t u
      then [(''status'', from_to (JStr (t_status t)) (json_str (tu_status u)))] else []) @
     (if task_assignee_changed t u
      then [(''assignee'', from_to (json_id (t_assignee t)) (json_id (tu_assignee u)))] else [])"

definition updateTask :: "user \<Rightarrow> objectid \<Rightarrow> task_updates \<Rightarrow> response io" where
  "updateTask req_user taskId updates =
     try_catch
       (bind_io (Task_findById taskId) (\<lambda>found.
        case found of
          None \<Rightarrow> respond 404 (Message ''Task not found'')
        | Some task0 \<Rightarrow>
            bind_io (Project_findById (t_project task0)) (\<lambda>project.
            if \<not> isAdminOrPM req_user \<and> \<not> isAssigned req_user task0
            then respond 403 (Message ''Access denied'')
            else
              let changes = task_changes task0 updates in
              bind_io
                (when_io (task_status_changed task0 updates)
                   (createProjectLog (t_project task0) (Some (u_id req_user))
                      ''Task Status Changed''
                      (JObj [(''taskId'', JId (t_id task0)), (''title'', JStr (t_title task0)),
                             (''from'', JStr (t_status task0)),
                             (''to'', json_str (tu_status updates))]))) (\<lambda>_.
              bind_io
                (when_io (task_assignee_changed task0 updates)
                   (createProjectLog (t_project task0) (Some (u_id req_user))
                      ''Task Reassigned''
                      (JObj [(''taskId'', JId (t_id task0)), (''title'', JStr (t_title task0)),
                             (''to'', json_id (tu_assignee updates))]))) (\<lambda>_.
              bind_io Date_now (\<lambda>now.
              let task = (Object_assign_task task0 updates)\<lparr>t_updatedAt := now\<rparr> in
              bind_io (Task_save task) (\<lambda>_.
              bind_io
                (when_io (0 < length changes)
                   (createProjectLog (t_project task) (Some (u_id req_user)) ''Task Updated''
                      (JObj [(''taskId'', JId (t_id task)), (''title'', JStr (t_title task)),
                             (''changes'', JObj changes)]))) (\<lambda>_.
              respond 200 (TaskDoc task)))))))))
       server_error"

definition deleteTask :: "user \<Rightarrow> objectid \<Rightarrow> response io" where
  "deleteTask req_user taskId =
     try_catch
       (bind_io (Task_findById taskId) (\<lambda>found.
        case found of
          None \<Rightarrow> respond 404 (Message ''Task not found'')
        | Some task \<Rightarrow>
            bind_io
              (createProjectLog (t_project task) (Some (u_id req_user)) ''Task Deleted''
                 (JObj [(''taskId'', JId (t_id task)), (''title'', JStr (t_title task))])) (\<lambda>_.
            bind_io (Task_findByIdAndDelete taskId) (\<lambda>_.
            respond 204 NoBody))))
       server_error"

definition populate_comment_authors :: "user list \<Rightarrow> task \<Rightarrow> (objectid \<times> string) option list" where
  \<comment> \<open>\<open>.populate('comments.author', 'name')\<close>\<close>
  "populate_comment_authors us t =
     map (\<lambda>c. map_option (\<lambda>u. (u_id u, u_name u)) (find (\<lambda>u. u_id u = c_author c) us))
       (t_comments t)"

definition addComment :: "user \<Rightarrow> objectid \<Rightarrow> string \<Rightarrow> response io" where
  "addComment req_user taskId text =
     try_catch
       (bind_io (Task_findById taskId) (\<lambda>found.
        case found of
          None \<Rightarrow> respond 404 (Message ''Task not found'')
        | Some task0 \<Rightarrow>
            bind_io (Project_findById (t_project task0)) (\<lambda>found_project.
            case found_project of
              None \<Rightarrow> throw_io (TypeError ''project is null'')
            | Some project \<Rightarrow>
                if \<not> isAdminOrPM req_user \<and> \<not> isTeamMember req_user project
                then respond 403 (Message ''Access denied'')
                else
                  bind_io Date_now (\<lambda>now.
                  let task = task0\<lparr>t_comments := t_comments task0 @
                               [\<lparr>c_author = u_id req_user, c_text = text, c_timestamp = now\<rparr>]\<rparr>
                  in
                  bind_io (Task_save task) (\<lambda>_.
                  bind_io
                    (createProjectLog (t_project task) (Some (u_id req_user)) ''Comment Added''
                       (JObj [(''taskId'', JId (t_id task)), (''title'', JStr (t_title task))]))
                    (\<lambda>_.
                  bind_io (Task_findById taskId) (\<lambda>updatedTask.
                  bind_io User_find_all (\<lambda>us.
                  case updatedTask of
                    None \<Rightarrow> respond 201 NoBody
                  | Some t \<Rightarrow>
                      respond 201 (PopulatedTask t (populate_comment_authors us t))))))))))
       server_error"

subsection \<open>controllers/projectLogsController.js: the queries\<close>

fun insert_desc :: "projectLog \<Rightarrow> projectLog list \<Rightarrow> projectLog list" where
  "insert_desc x [] = [x]"
| "insert_desc x (y # ys) =
     (if l_timestamp y \<le> l_timestamp x then x # y # ys else y # insert_desc x ys)"

definition sort_timestamp_desc :: "projectLog list \<Rightarrow> projectLog list" where
  \<comment> \<open>\<open>.sort({ timestamp: -1 })\<close>; entries of equal timestamp keep their stored order\<close>
  "sort_timestamp_desc xs = foldr insert_desc xs []"

definition populate_log :: "world \<Rightarrow> projectLog \<Rightarrow> populated_log" where
  \<comment> \<open>\<open>.populate('user', 'name email').populate('project', 'name')\<close>: a reference to a
      document that is not stored becomes \<open>null\<close>\<close>
  "populate_log w l =
     \<lparr>v_id = l_id l,
      v_project = map_option (\<lambda>p. (p_id p, p_name p)) (find (\<lambda>p. p_id p = l_project l) (projects w)),
      v_user =
        (case l_user l of
           None \<Rightarrow> None
         | Some uid \<Rightarrow>
             map_option (\<lambda>u. (u_id u, u_name u, u_email u)) (find (\<lambda>u. u_id u = uid) (users w))),
      v_action = l_action l,
      v_details = l_details l,
      v_timestamp = l_timestamp l\<rparr>"

definition ProjectLog_find :: "(projectLog \<Rightarrow> bool) \<Rightarrow> populated_log list io" where
  \<comment> \<open>\<open>ProjectLog.find(filter).populate(...).populate(...).sort({ timestamp: -1 })\<close>\<close>
  "ProjectLog_find sel = (\<lambda>w.
     (Inr (map (populate_log w) (sort_timestamp_desc (filter sel (logs w)))), w))"

definition getProjectLogs :: "user \<Rightarrow> objectid \<Rightarrow> response io" where
  \<comment> \<open>the handler reads \<open>req.params.projectId\<close> only; \<open>req.user\<close> is not consulted\<close>
  "getProjectLogs req_user projectId =
     try_catch
       (bind_io (ProjectLog_find (\<lambda>l. l_project l = projectId)) (\<lambda>ls.
        respond 200 (Logs ls)))
       server_error"

definition getAllProjectLogs :: "user \<Rightarrow> response io" where
  "getAllProjectLogs req_user =
     try_catch
       (bind_io (ProjectLog_find (\<lambda>l. True)) (\<lambda>ls.
        respond 200 (Logs ls)))
       server_error"

subsection \<open>controllers/reportsController.js\<close>

definition Task_countDocuments :: "objectid \<Rightarrow> objectid \<Rightarrow> string \<Rightarrow> nat io" where
  \<comment> \<open>\<open>Task.countDocuments({ project, assignee, status })\<close>\<close>
  "Task_countDocuments pid member st = (\<lambda>w.
     (Inr (length (filter (\<lambda>t. t_project t = pid \<and> t_assignee t = Some member \<and> t_status t = st)
                     (tasks w))), w))"

fun teamStats :: "objectid \<Rightarrow> (objectid \<times> string \<times> string \<times> string) list \<Rightarrow> member_stats list io"
  where
  "teamStats pid [] = return_io []"
| "teamStats pid (member # members) =
     bind_io (Task_countDocuments pid (fst member) ''Completed'') (\<lambda>tasksCompleted.
     bind_io (teamStats pid members) (\<lambda>rest.
     return_io (\<lparr>ms_name = fst (snd member), ms_email = fst (snd (snd member)),
                  ms_tasksCompleted = tasksCompleted\<rparr> # rest)))"

text \<open>
  Every double is an integer multiple of \<open>2^-1074\<close>, the smallest positive double. Half of
  an even multiple is a double again. Half of an odd multiple lies midway between two
  neighbouring doubles, and the multiplication rounds it to the one whose multiple is
  even (round to nearest, ties to even); an odd multiple is smaller than \<open>2^-1021\<close> in
  magnitude.
\<close>

definition double_scale :: rat where
  \<comment> \<open>the number of smallest positive doubles that make 1\<close>
  "double_scale = 2 ^ 1074"

definition odd_multiple :: "rat \<Rightarrow> bool" where
  \<comment> \<open>\<open>x\<close> is an odd multiple of \<open>2^-1074\<close>\<close>
  "odd_multiple x =
     (snd (quotient_of (x * double_scale)) = 1 \<and> odd (fst (quotient_of (x * double_scale))))"

definition times_half :: "rat \<Rightarrow> rat" where
  \<comment> \<open>\<open>x * 0.5\<close> in double arithmetic\<close>
  "times_half x =
     (if odd_multiple x
      then (let h = (fst (quotient_of (x * double_scale)) - 1) div 2
            in of_int (if even h then h else h + 1) / double_scale)
      else x / 2)"

definition budget_used :: "rat option \<Rightarrow> rat" where
  \<comment> \<open>\<open>project.budget ? project.budget * 0.5 : 0\<close>\<close>
  "budget_used b = (case b of None \<Rightarrow> 0 | Some x \<Rightarrow> if x = 0 then 0 else times_half x)"

definition budget_total :: "rat option \<Rightarrow> rat" where
  \<comment> \<open>\<open>project.budget || 0\<close>\<close>
  "budget_total b = (case b of None \<Rightarrow> 0 | Some x \<Rightarrow> if x = 0 then 0 else x)"

definition getProjectReport :: "user \<Rightarrow> objectid \<Rightarrow> response io" where
  "getProjectReport req_user projectId =
     try_catch
       (bind_io (Project_findById projectId) (\<lambda>found.
        case found of
          None \<Rightarrow> respond 404 (Message ''Project not found'')
        | Some project \<Rightarrow>
            bind_io User_find_all (\<lambda>us.
            bind_io (Task_find_project projectId) (\<lambda>ts.
            let team = populate_team us (p_team project);
                todo = length (filter (\<lambda>t. t_status t = ''To Do'') ts);
                inProgress = length (filter (\<lambda>t. t_status t = ''In Progress'') ts);
                completed = length (filter (\<lambda>t. t_status t = ''Completed'') ts)
            in
            bind_io (teamStats projectId team) (\<lambda>stats.
            respond 200
              (Report
                 \<lparr>r_status = p_status project,
                  r_deadline = p_deadline project,
                  r_progress = p_progress project,
                  r_budget_used = budget_used (p_budget project),
                  r_budget_total = budget_total (p_budget project),
                  r_todo = todo,
                  r_inProgress = inProgress,
                  r_completed = completed,
                  r_team = stats\<rparr>))))))
       server_error"

subsection \<open>middlewares/auth.js and the routes of the two queries\<close>

datatype credential =
    NoToken
  | BadToken
  | TokenFor objectid

definition authMiddleware :: "credential \<Rightarrow> (response + user) io" where
  \<comment> \<open>\<open>Inl\<close>: the middleware has answered; \<open>Inr u\<close>: \<open>req.user = u\<close> and \<open>next()\<close>.
      A token that \<open>jwt.verify\<close> accepts carries the id of a user.\<close>
  "authMiddleware cred =
     (case cred of
        NoToken \<Rightarrow>
          return_io (Inl \<lparr>res_status = 401, res_body = Message ''No token, authorization denied''\<rparr>)
      | BadToken \<Rightarrow> return_io (Inl \<lparr>res_status = 401, res_body = Message ''Invalid token''\<rparr>)
      | TokenFor i \<Rightarrow>
          bind_io (User_findById i) (\<lambda>found.
          case found of
            None \<Rightarrow> return_io (Inl \<lparr>res_status = 401, res_body = Message ''User not found''\<rparr>)
          | Some u \<Rightarrow> return_io (Inr u)))"

definition roleMiddleware :: "string list \<Rightarrow> user \<Rightarrow> response option" where
  \<comment> \<open>\<open>Some r\<close>: the middleware has answered; \<open>None\<close>: \<open>next()\<close>\<close>
  "roleMiddleware roles req_user =
     (if u_role req_user \<notin> set roles
      then Some \<lparr>res_status = 403, res_body = Message ''Access denied''\<rparr>
      else None)"

datatype path_param =
    IdText objectid
  | OtherText string

definition isMongoId :: "path_param \<Rightarrow> string \<Rightarrow> string list" where
  \<comment> \<open>\<open>param(p).isMongoId().withMessage(msg)\<close>: the errors the validator records\<close>
  "isMongoId p msg = (case p of IdText _ \<Rightarrow> [] | OtherText _ \<Rightarrow> [msg])"

definition validate :: "string list \<Rightarrow> response option" where
  \<comment> \<open>Modelled from the spec: \<open>middlewares/validate.js\<close> is not among the sources. By the
      spec a ValidationError (malformed input, status category bad-input) is returned
      before the handler runs and without side effects; with no recorded error the next
      handler runs.\<close>
  "validate errors =
     (if 0 < length errors then Some \<lparr>res_status = 400, res_body = Message (hd errors)\<rparr>
      else None)"

definition ObjectId_cast :: "path_param \<Rightarrow> objectid io" where
  \<comment> \<open>the cast of a path parameter to an ObjectId in a query; it throws on other text\<close>
  "ObjectId_cast p = (case p of IdText i \<Rightarrow> return_io i | OtherText _ \<Rightarrow> throw_io CastError)"

definition route_project_logs :: "credential \<Rightarrow> path_param \<Rightarrow> response io" where
  \<comment> \<open>\<open>router.get('/projects/:projectId/logs', [authMiddleware, param('projectId')...],
        validate, getProjectLogs)\<close>\<close>
  "route_project_logs cred projectId =
     bind_io (authMiddleware cred) (\<lambda>a.
     case a of
       Inl r \<Rightarrow> return_io r
     | Inr req_user \<Rightarrow>
         (case validate (isMongoId projectId ''Invalid project ID'') of
            Some r \<Rightarrow> return_io r
          | None \<Rightarrow>
              try_catch
                (bind_io (ObjectId_cast projectId) (getProjectLogs req_user))
                server_error))"

definition route_all_logs :: "credential \<Rightarrow> response io" where
  \<comment> \<open>\<open>router.get('/logs', [authMiddleware, roleMiddleware(['Administrator'])],
        getAllProjectLogs)\<close>\<close>
  "route_all_logs cred =
     bind_io (authMiddleware cred) (\<lambda>a.
     case a of
       Inl r \<Rightarrow> return_io r
     | Inr req_user \<Rightarrow>
         (case roleMiddleware [''Administrator''] req_user of
            Some r \<Rightarrow> return_io r
          | None \<Rightarrow> getAllProjectLogs req_user))"

definition route_project_report :: "credential \<Rightarrow> path_param \<Rightarrow> response io" where
  \<comment> \<open>\<open>router.get('/:projectId', [authMiddleware,
        roleMiddleware(['Administrator', 'Project Manager']), param('projectId')...],
        validate, getProjectReport)\<close>\<close>
  "route_project_report cred projectId =
     bind_io (authMiddleware cred) (\<lambda>a.
     case a of
       Inl r \<Rightarrow> return_io r
     | Inr req_user \<Rightarrow>
         (case roleMiddleware [''Administrator'', ''Project Manager''] req_user of
            Some r \<Rightarrow> return_io r
          | None \<Rightarrow>
              (case validate (isMongoId projectId ''Invalid project ID'') of
                 Some r \<Rightarrow> return_io r
               | None \<Rightarrow>
                   try_catch
                     (bind_io (ObjectId_cast projectId) (getProjectReport req_user))
                     server_error)))"

subsection \<open>All requests of the model\<close>

datatype request =
    CreateProject user project_body
  | GetProject user objectid
  | UpdateProject user objectid project_updates
  | DeleteProject user objectid
  | CreateTask user objectid task_body
  | UpdateTask user objectid task_updates
  | DeleteTask user objectid
  | AddComment user objectid string
  | GetProjectLogs credential path_param
  | GetAllProjectLogs credential
  | GetProjectReport credential path_param

fun handle :: "request \<Rightarrow> response io" where
  "handle (CreateProject u b) = createProject u b"
| "handle (GetProject u i) = getProject u i"
| "handle (UpdateProject u i upd) = updateProject u i upd"
| "handle (DeleteProject u i) = deleteProject u i"
| "handle (CreateTask u i b) = createTask u i b"
| "handle (UpdateTask u i upd) = updateTask u i upd"
| "handle (DeleteTask u i) = deleteTask u i"
| "handle (AddComment u i text) = addComment u i text"
| "handle (GetProjectLogs cred p) = route_project_logs cred p"
| "handle (GetAllProjectLogs cred) = route_all_logs cred"
| "handle (GetProjectReport cred p) = route_project_report cred p"

text \<open>
  The worlds the system can be in: it starts with an empty activity log; a request of
  the model is handled; or something else happens that leaves the ProjectLog collection
  as it is: the clock advances, the storage becomes faulty or recovers, or one of the
  other handlers runs (\<open>getProjects\<close>, \<open>getTasks\<close>, \<open>getRecentTasks\<close>, \<open>addAttachment\<close>, the
  user, authentication, dashboard and security controllers), none of which refers to the
  ProjectLog model or to \<open>createProjectLog\<close>.
\<close>

inductive reachable :: "world \<Rightarrow> bool" where
  start: "logs w = [] \<Longrightarrow> reachable w"
| request: "reachable w \<Longrightarrow> reachable (snd (handle r w))"
| outside: "reachable w \<Longrightarrow> logs w' = logs w \<Longrightarrow> reachable w'"

subsection \<open>Vocabulary of the properties\<close>

definition after :: "'a io \<Rightarrow> world \<Rightarrow> world" where
  \<comment> \<open>the world an action leaves behind\<close>
  "after m w = snd (m w)"

definition new_events :: "'a io \<Rightarrow> world \<Rightarrow> event list" where
  \<comment> \<open>the writes and append attempts an action makes, in their order\<close>
  "new_events m w = drop (length (trace w)) (trace (snd (m w)))"

definition new_logs :: "'a io \<Rightarrow> world \<Rightarrow> projectLog list" where
  \<comment> \<open>the log entries an action persists, in their order\<close>
  "new_logs m w = drop (length (logs w)) (logs (snd (m w)))"

definition outcome ::
  "response io \<Rightarrow> world \<Rightarrow> (error + response) \<times> project list \<times> task list \<times> user list" where
  \<comment> \<open>what the client sees and what the entity collections hold afterwards\<close>
  "outcome m w = (fst (m w), projects (snd (m w)), tasks (snd (m w)), users (snd (m w)))"

definition log_accepted :: "world \<Rightarrow> bool" where
  \<comment> \<open>the storage accepts the next append\<close>
  "log_accepted w = (case log_faults w of [] \<Rightarrow> True | b # _ \<Rightarrow> \<not> b)"

definition log_entry ::
  "world \<Rightarrow> objectid \<Rightarrow> objectid option \<Rightarrow> string \<Rightarrow> json \<Rightarrow> projectLog" where
  \<comment> \<open>the document \<open>createProjectLog\<close> builds in world \<open>w\<close>\<close>
  "log_entry w p u a d =
     \<lparr>l_id = next_id w, l_project = p, l_user = u, l_action = a, l_details = d,
      l_timestamp = clock w\<rparr>"

definition is_write :: "event \<Rightarrow> bool" where
  "is_write e = (case e of Write _ \<Rightarrow> True | LogAttempt _ \<Rightarrow> False)"

definition is_attempt :: "event \<Rightarrow> bool" where
  "is_attempt e = (case e of Write _ \<Rightarrow> False | LogAttempt _ \<Rightarrow> True)"

definition commits_first :: "event list \<Rightarrow> bool" where
  \<comment> \<open>the events are writes followed by append attempts, and do not begin with an
      attempt\<close>
  "commits_first es =
     (list_all is_attempt (dropWhile is_write es) \<and>
      (case es of [] \<Rightarrow> True | e # _ \<Rightarrow> is_write e))"

definition valid_actions :: "projectLog list \<Rightarrow> bool" where
  "valid_actions ls = list_all (\<lambda>l. l_action l \<in> set ProjectLog_action_enum) ls"

subsection \<open>A small installation, for the concrete runs\<close>

definition example_alice :: user where
  "example_alice = \<lparr>u_id = 1, u_name = ''Alice'', u_email = ''alice@easypm.test'',
     u_role = ''Administrator'', u_assignedProjects = []\<rparr>"

definition example_bob :: user where
  "example_bob = \<lparr>u_id = 2, u_name = ''Bob'', u_email = ''bob@easypm.test'',
     u_role = ''Project Manager'', u_assignedProjects = []\<rparr>"

definition example_carol :: user where
  "example_carol = \<lparr>u_id = 3, u_name = ''Carol'', u_email = ''carol@easypm.test'',
     u_role = ''Collaborator'', u_assignedProjects = [10]\<rparr>"

definition example_dave :: user where
  "example_dave = \<lparr>u_id = 4, u_name = ''Dave'', u_email = ''dave@easypm.test'',
     u_role = ''Collaborator'', u_assignedProjects = []\<rparr>"

definition example_project :: project where
  "example_project =
     \<lparr>p_id = 10, p_name = ''Apollo'', p_description = Some ''Moon'', p_status = ''Active'',
      p_progress = 40, p_team = [3], p_startDate = 100, p_deadline = None,
      p_methodology = ''None'', p_budget = Some 50000, p_sprintDuration = None,
      p_wipLimit = None, p_phases = [], p_valueGoals = None, p_createdBy = 2,
      p_lastUpdate = 100\<rparr>"

definition example_task :: "objectid \<Rightarrow> string \<Rightarrow> string \<Rightarrow> objectid option \<Rightarrow> task" where
  "example_task i title st assignee =
     \<lparr>t_id = i, t_title = title, t_description = None, t_project = 10, t_status = st,
      t_priority = ''Medium'', t_assignee = assignee, t_dueDate = None, t_storyPoints = None,
      t_phase = None, t_attachments = [], t_comments = [], t_createdAt = 200,
      t_updatedAt = 200\<rparr>"

definition example_world :: world where
  "example_world =
     \<lparr>projects = [example_project],
      tasks = [example_task 20 ''Plan'' ''To Do'' (Some 3),
               example_task 21 ''Build'' ''Backlog'' None,
               example_task 22 ''Ship'' ''Completed'' (Some 3)],
      users = [example_alice, example_bob, example_carol, example_dave],
      logs = [],
      next_id = 100,
      clock = 1000,
      log_faults = [],
      trace = [],
      console = []\<rparr>"

definition no_updates :: project_updates where
  \<comment> \<open>the empty request body \<open>{}\<close> of a project update\<close>
  "no_updates =
     \<lparr>upd_name = None, upd_description = None, upd_status = None, upd_progress = None,
      upd_team = None, upd_startDate = None, upd_deadline = None, upd_methodology = None,
      upd_budget = None, upd_sprintDuration = None, upd_wipLimit = None, upd_phases = None,
      upd_valueGoals = None\<rparr>"

definition no_task_updates :: task_updates where
  \<comment> \<open>the empty request body \<open>{}\<close> of a task update\<close>
  "no_task_updates =
     \<lparr>tu_title = None, tu_description = None, tu_status = None, tu_priority = None,
      tu_assignee = None, tu_dueDate = None, tu_storyPoints = None, tu_phase = None\<rparr>"

definition example_body :: project_body where
  "example_body =
     \<lparr>b_name = ''Gemini'', b_description = None, b_status = None, b_progress = None,
      b_team = Some [3], b_startDate = 900, b_deadline = None, b_methodology = None,
      b_budget = Some 50000, b_sprintDuration = None, b_wipLimit = None, b_phases = None,
      b_valueGoals = None\<rparr>"

definition example_task_body :: task_body where
  "example_task_body =
     \<lparr>tb_title = ''Test'', tb_description = None, tb_status = None, tb_priority = None,
      tb_assignee = None, tb_dueDate = None, tb_storyPoints = None, tb_phase = None\<rparr>"

definition example_logs :: "projectLog list" where
  \<comment> \<open>two entries of project 10 written in the same millisecond, the first by a user
      (id 5) who has since been deleted, and one entry of another project\<close>
  "example_logs =
     [\<lparr>l_id = 50, l_project = 10, l_user = Some 5, l_action = ''Status Changed'',
       l_details = from_to (JStr ''On Hold'') (JStr ''Active''), l_timestamp = 500\<rparr>,
      \<lparr>l_id = 51, l_project = 10, l_user = Some 3, l_action = ''Updated'',
       l_details = JNull, l_timestamp = 500\<rparr>,
      \<lparr>l_id = 52, l_project = 11, l_user = Some 2, l_action = ''Created'',
       l_details = JNull, l_timestamp = 400\<rparr>,
      \<lparr>l_id = 53, l_project = 10, l_user = Some 2, l_action = ''Task Created'',
       l_details = JNull, l_timestamp = 700\<rparr>]"

definition status_of :: "error + response \<Rightarrow> nat option" where
  \<comment> \<open>the HTTP status the client receives\<close>
  "status_of r = (case r of Inl _ \<Rightarrow> None | Inr x \<Rightarrow> Some (res_status x))"

definition listed :: "error + response \<Rightarrow> populated_log list" where
  \<comment> \<open>the log entries a response carries\<close>
  "listed r = (case r of Inl _ \<Rightarrow> [] | Inr x \<Rightarrow> (case res_body x of Logs ls \<Rightarrow> ls | _ \<Rightarrow> []))"

definition example_log_world :: world where
  "example_log_world = example_world\<lparr>logs := example_logs\<rparr>"

definition keeps_valid :: "'a io \<Rightarrow> bool" where
  \<comment> \<open>an action that leaves only enumerated actions in the log when it found only such\<close>
  "keeps_valid m = (\<forall>w. valid_actions (logs w) \<longrightarrow> valid_actions (logs (snd (m w))))"

definition reported_used :: "error + response \<Rightarrow> rat option" where
  \<comment> \<open>the budget-used figure of a report\<close>
  "reported_used r =
     (case r of
        Inl _ \<Rightarrow> None
      | Inr x \<Rightarrow> (case res_body x of Report rep \<Rightarrow> Some (r_budget_used rep) | _ \<Rightarrow> None))"

definition example_tiny_project :: project where
  \<comment> \<open>a project whose budget is the smallest positive double, \<open>5e-324\<close>\<close>
  "example_tiny_project = example_project\<lparr>p_budget := Some (1 / double_scale)\<rparr>"

definition example_tiny_world :: world where
  "example_tiny_world = example_world\<lparr>projects := [example_tiny_project]\<rparr>"

section \<open>Running the model\<close>

text \<open>
  Each action of the model that cannot throw is described by the value it returns and by
  the fields of the world it leaves behind. With these equations a handler is run on a
  symbolic world one call at a time.
\<close>

lemmas io_defs = return_io_def throw_io_def bind_io_def try_catch_def
  Date_now_def new_ObjectId_def respond_def server_error_def

lemma run_eq: "fst (m w) = r \<Longrightarrow> m w = (r, after m w)"
  by (simp add: after_def prod_eq_iff)

lemma createProjectLog_fst:
  "fst (createProjectLog p u a d w) =
     Inr (if a \<in> set ProjectLog_action_enum \<and> log_accepted w
          then Some (log_entry w p u a d) else None)"
  by (cases "log_faults w")
     (simp_all add: createProjectLog_def new_ProjectLog_def ProjectLog_save_def
        ProjectLog_validate_def ProjectLog_insert_def io_defs emit_def console_error_def
        log_accepted_def log_entry_def)

lemma createProjectLog_run:
  "createProjectLog p u a d w =
     (Inr (if a \<in> set ProjectLog_action_enum \<and> log_accepted w
           then Some (log_entry w p u a d) else None),
      after (createProjectLog p u a d) w)"
  by (rule run_eq, rule createProjectLog_fst)

lemma createProjectLog_fields:
  "projects (after (createProjectLog p u a d) w) = projects w"
  "tasks (after (createProjectLog p u a d) w) = tasks w"
  "users (after (createProjectLog p u a d) w) = users w"
  "clock (after (createProjectLog p u a d) w) = clock w"
  "next_id (after (createProjectLog p u a d) w) = Suc (next_id w)"
  "trace (after (createProjectLog p u a d) w) = trace w @ [LogAttempt a]"
  "logs (after (createProjectLog p u a d) w) =
     logs w @ (if a \<in> set ProjectLog_action_enum \<and> log_accepted w
               then [log_entry w p u a d] else [])"
  "log_faults (after (createProjectLog p u a d) w) =
     (if a \<in> set ProjectLog_action_enum then tl (log_faults w) else log_faults w)"
  by (cases "log_faults w";
      simp add: after_def createProjectLog_def new_ProjectLog_def ProjectLog_save_def
        ProjectLog_validate_def ProjectLog_insert_def io_defs emit_def console_error_def
        log_accepted_def log_entry_def)+

lemma when_io_fst: "fst (m w) = Inr x \<Longrightarrow> fst (when_io c m w) = Inr ()"
  by (cases "m w") (simp add: when_io_def bind_io_def return_io_def)

lemma when_io_after: "fst (m w) = Inr x \<Longrightarrow> after (when_io c m) w = (if c then after m w else w)"
  by (cases "m w") (simp add: when_io_def bind_io_def return_io_def after_def)

lemma when_log_run:
  "when_io c (createProjectLog p u a d) w = (Inr (), after (when_io c (createProjectLog p u a d)) w)"
  by (rule run_eq, rule when_io_fst, rule createProjectLog_fst)

lemma when_log_fields:
  "projects (after (when_io c (createProjectLog p u a d)) w) = projects w"
  "tasks (after (when_io c (createProjectLog p u a d)) w) = tasks w"
  "users (after (when_io c (createProjectLog p u a d)) w) = users w"
  "clock (after (when_io c (createProjectLog p u a d)) w) = clock w"
  "next_id (after (when_io c (createProjectLog p u a d)) w) = (if c then Suc (next_id w) else next_id w)"
  "trace (after (when_io c (createProjectLog p u a d)) w) = trace w @ (if c then [LogAttempt a] else [])"
  "logs (after (when_io c (createProjectLog p u a d)) w) =
     logs w @ (if c \<and> a \<in> set ProjectLog_action_enum \<and> log_accepted w
               then [log_entry w p u a d] else [])"
  "log_faults (after (when_io c (createProjectLog p u a d)) w) =
     (if c \<and> a \<in> set ProjectLog_action_enum then tl (log_faults w) else log_faults w)"
  by (simp_all add: when_io_after[OF createProjectLog_fst] createProjectLog_fields)

lemma Project_save_run:
  "Project_save p w = (Inr (), after (Project_save p) w)"
  by (simp add: Project_save_def after_def bind_io_def emit_def)

lemma Project_save_fields:
  "projects (after (Project_save p) w) = upsert p_id p (projects w)"
  "tasks (after (Project_save p) w) = tasks w"
  "users (after (Project_save p) w) = users w"
  "logs (after (Project_save p) w) = logs w"
  "next_id (after (Project_save p) w) = next_id w"
  "clock (after (Project_save p) w) = clock w"
  "log_faults (after (Project_save p) w) = log_faults w"
  "trace (after (Project_save p) w) = trace w @ [Write Project_save_op]"
  by (simp_all add: Project_save_def after_def bind_io_def emit_def)

lemma Project_deleteOne_run:
  "Project_deleteOne p w = (Inr (), after (Project_deleteOne p) w)"
  by (simp add: Project_deleteOne_def after_def bind_io_def emit_def)

lemma Project_deleteOne_fields:
  "projects (after (Project_deleteOne p) w) = filter (\<lambda>q. p_id q \<noteq> p_id p) (projects w)"
  "tasks (after (Project_deleteOne p) w) = tasks w"
  "users (after (Project_deleteOne p) w) = users w"
  "logs (after (Project_deleteOne p) w) = logs w"
  "next_id (after (Project_deleteOne p) w) = next_id w"
  "clock (after (Project_deleteOne p) w) = clock w"
  "log_faults (after (Project_deleteOne p) w) = log_faults w"
  "trace (after (Project_deleteOne p) w) = trace w @ [Write Project_deleteOne_op]"
  by (simp_all add: Project_deleteOne_def after_def bind_io_def emit_def)

lemma User_updateMany_run:
  "User_updateMany sel upd w = (Inr (), after (User_updateMany sel upd) w)"
  by (simp add: User_updateMany_def after_def bind_io_def emit_def)

lemma User_updateMany_fields:
  "projects (after (User_updateMany sel upd) w) = projects w"
  "tasks (after (User_updateMany sel upd) w) = tasks w"
  "users (after (User_updateMany sel upd) w) = map (\<lambda>u. if sel u then upd u else u) (users w)"
  "logs (after (User_updateMany sel upd) w) = logs w"
  "next_id (after (User_updateMany sel upd) w) = next_id w"
  "clock (after (User_updateMany sel upd) w) = clock w"
  "log_faults (after (User_updateMany sel upd) w) = log_faults w"
  "trace (after (User_updateMany sel upd) w) = trace w @ [Write User_updateMany_op]"
  by (simp_all add: User_updateMany_def after_def bind_io_def emit_def)

lemma Task_save_run:
  "Task_save t w = (Inr (), after (Task_save t) w)"
  by (simp add: Task_save_def after_def bind_io_def emit_def)

lemma Task_save_fields:
  "projects (after (Task_save t) w) = projects w"
  "tasks (after (Task_save t) w) = upsert t_id t (tasks w)"
  "users (after (Task_save t) w) = users w"
  "logs (after (Task_save t) w) = logs w"
  "next_id (after (Task_save t) w) = next_id w"
  "clock (after (Task_save t) w) = clock w"
  "log_faults (after (Task_save t) w) = log_faults w"
  "trace (after (Task_save t) w) = trace w @ [Write Task_save_op]"
  by (simp_all add: Task_save_def after_def bind_io_def emit_def)

lemma Task_findByIdAndDelete_run:
  "Task_findByIdAndDelete i w = (Inr (), after (Task_findByIdAndDelete i) w)"
  by (simp add: Task_findByIdAndDelete_def after_def bind_io_def emit_def)

lemma Task_findByIdAndDelete_fields:
  "projects (after (Task_findByIdAndDelete i) w) = projects w"
  "tasks (after (Task_findByIdAndDelete i) w) = filter (\<lambda>t. t_id t \<noteq> i) (tasks w)"
  "users (after (Task_findByIdAndDelete i) w) = users w"
  "logs (after (Task_findByIdAndDelete i) w) = logs w"
  "next_id (after (Task_findByIdAndDelete i) w) = next_id w"
  "clock (after (Task_findByIdAndDelete i) w) = clock w"
  "log_faults (after (Task_findByIdAndDelete i) w) = log_faults w"
  "trace (after (Task_findByIdAndDelete i) w) = trace w @ [Write Task_findByIdAndDelete_op]"
  by (simp_all add: Task_findByIdAndDelete_def after_def bind_io_def emit_def)

lemma Task_deleteMany_run:
  "Task_deleteMany pid w = (Inr (), after (Task_deleteMany pid) w)"
  by (simp add: Task_deleteMany_def after_def bind_io_def emit_def)

lemma Task_deleteMany_fields:
  "projects (after (Task_deleteMany pid) w) = projects w"
  "tasks (after (Task_deleteMany pid) w) = filter (\<lambda>t. t_project t \<noteq> pid) (tasks w)"
  "users (after (Task_deleteMany pid) w) = users w"
  "logs (after (Task_deleteMany pid) w) = logs w"
  "next_id (after (Task_deleteMany pid) w) = next_id w"
  "clock (after (Task_deleteMany pid) w) = clock w"
  "log_faults (after (Task_deleteMany pid) w) = log_faults w"
  "trace (after (Task_deleteMany pid) w) = trace w @ [Write Task_deleteMany_op]"
  by (simp_all add: Task_deleteMany_def after_def bind_io_def emit_def)

lemma Project_save_assigned_run:
  "Project_save_assigned [] p w = (Inr (), after (Project_save p) w)"
  "Project_save_assigned (e # es) p w = (Inl (ValidationError e), w)"
  by (simp_all add: Project_save_assigned_def Project_save_run throw_io_def)

lemmas run_rules = createProjectLog_run when_log_run Project_save_run Project_save_assigned_run
  Project_deleteOne_run
  User_updateMany_run Task_save_run Task_findByIdAndDelete_run Task_deleteMany_run
  io_defs Project_findById_def Task_findById_def Task_find_project_def User_findById_def
  User_find_all_def Let_def

lemmas world_fields = createProjectLog_fields when_log_fields Project_save_fields
  Project_deleteOne_fields User_updateMany_fields Task_save_fields
  Task_findByIdAndDelete_fields Task_deleteMany_fields

lemma action_literals:
  "''Created'' \<in> set ProjectLog_action_enum"
  "''Updated'' \<in> set ProjectLog_action_enum"
  "''Deleted'' \<in> set ProjectLog_action_enum"
  "''Status Changed'' \<in> set ProjectLog_action_enum"
  "''Team Changed'' \<in> set ProjectLog_action_enum"
  "''Progress Updated'' \<in> set ProjectLog_action_enum"
  "''Task Created'' \<in> set ProjectLog_action_enum"
  "''Task Updated'' \<in> set ProjectLog_action_enum"
  "''Task Status Changed'' \<in> set ProjectLog_action_enum"
  "''Task Reassigned'' \<in> set ProjectLog_action_enum"
  "''Task Deleted'' \<in> set ProjectLog_action_enum"
  "''Comment Added'' \<in> set ProjectLog_action_enum"
  by (simp_all add: ProjectLog_action_enum_def)

lemma find_replace:
  "\<exists>x\<in>set ds. key x = key d \<Longrightarrow>
   find (\<lambda>x. key x = key d) (map (\<lambda>x. if key x = key d then d else x) ds) = Some d"
  by (induction ds) auto

lemma find_append_new:
  "\<not> (\<exists>x\<in>set ds. key x = key d) \<Longrightarrow> find (\<lambda>x. key x = key d) (ds @ [d]) = Some d"
  by (induction ds) auto

lemma find_upsert: "find (\<lambda>x. key x = key d) (upsert key d ds) = Some d"
  by (simp add: upsert_def list_ex_iff find_replace find_append_new)

lemma find_key: "find (\<lambda>x. key x = i) ds = Some d \<Longrightarrow> key d = i"
  by (auto simp: find_Some_iff)

lemma Object_assign_project_fields:
  "p_id (Object_assign_project p u) = p_id p"
  "p_team (Object_assign_project p u) = assign_opt (upd_team u) (p_team p)"
  "p_progress (Object_assign_project p u) =
     assign_opt (map_option int_value_number (upd_progress u)) (p_progress p)"
  "p_status (Object_assign_project p u) = assign_opt (upd_status u) (p_status p)"
  by (simp_all add: Object_assign_project_def)

lemma filter_notin_self: "filter (\<lambda>m. m \<notin> set xs) xs = []"
  by (simp add: filter_empty_conv)

lemma when_users_run:
  "when_io c (User_updateMany sel upd) w =
     (Inr (), if c then after (User_updateMany sel upd) w else w)"
  by (simp add: when_io_def bind_io_def return_io_def User_updateMany_run)

lemma faults_fields [simp]:
  "projects (w\<lparr>log_faults := f\<rparr>) = projects w"
  "tasks (w\<lparr>log_faults := f\<rparr>) = tasks w"
  "users (w\<lparr>log_faults := f\<rparr>) = users w"
  "clock (w\<lparr>log_faults := f\<rparr>) = clock w"
  "next_id (w\<lparr>log_faults := f\<rparr>) = next_id w"
  by simp_all

subsection \<open>The outcome of a mutation does not depend on the storage of the log\<close>

lemma createProject_outcome:
  "outcome (createProject u b) (w\<lparr>log_faults := f\<rparr>) =
   outcome (createProject u b) (w\<lparr>log_faults := g\<rparr>)"
  by (cases "b_team b")
     (simp_all add: outcome_def createProject_def run_rules world_fields when_users_run)

lemma updateProject_outcome:
  "outcome (updateProject u i upd) (w\<lparr>log_faults := f\<rparr>) =
   outcome (updateProject u i upd) (w\<lparr>log_faults := g\<rparr>)"
  by (cases "upd_team upd"; cases "find (\<lambda>p. p_id p = i) (projects w)";
      cases "assignment_errors upd")
     (simp_all add: outcome_def updateProject_def run_rules world_fields)

lemma deleteProject_outcome:
  "outcome (deleteProject u i) (w\<lparr>log_faults := f\<rparr>) =
   outcome (deleteProject u i) (w\<lparr>log_faults := g\<rparr>)"
  by (cases "find (\<lambda>p. p_id p = i) (projects w)")
     (simp_all add: outcome_def deleteProject_def run_rules world_fields)

lemma createTask_outcome:
  "outcome (createTask u i b) (w\<lparr>log_faults := f\<rparr>) =
   outcome (createTask u i b) (w\<lparr>log_faults := g\<rparr>)"
  by (cases "find (\<lambda>p. p_id p = i) (projects w)")
     (simp_all add: outcome_def createTask_def run_rules world_fields)

lemma updateTask_outcome:
  "outcome (updateTask u i upd) (w\<lparr>log_faults := f\<rparr>) =
   outcome (updateTask u i upd) (w\<lparr>log_faults := g\<rparr>)"
  by (cases "find (\<lambda>t. t_id t = i) (tasks w)")
     (simp_all add: outcome_def updateTask_def run_rules world_fields)

lemma deleteTask_outcome:
  "outcome (deleteTask u i) (w\<lparr>log_faults := f\<rparr>) =
   outcome (deleteTask u i) (w\<lparr>log_faults := g\<rparr>)"
  by (cases "find (\<lambda>t. t_id t = i) (tasks w)")
     (simp_all add: outcome_def deleteTask_def run_rules world_fields)

lemma addComment_outcome:
  "outcome (addComment u i ctext) (w\<lparr>log_faults := f\<rparr>) =
   outcome (addComment u i ctext) (w\<lparr>log_faults := g\<rparr>)"
proof (cases "find (\<lambda>t. t_id t = i) (tasks w)")
  case None
  then show ?thesis by (simp add: outcome_def addComment_def run_rules world_fields)
next
  case (Some t)
  have tid: "t_id t = i" using Some by (rule find_key)
  have fu: "\<And>cs ts. find (\<lambda>x. t_id x = i) (upsert t_id (t\<lparr>t_comments := cs\<rparr>) ts)
              = Some (t\<lparr>t_comments := cs\<rparr>)"
    using find_upsert[of t_id "t\<lparr>t_comments := cs\<rparr>" for cs] tid by simp
  show ?thesis
    using Some
    by (cases "find (\<lambda>p. p_id p = t_project t) (projects w)")
       (simp_all add: outcome_def addComment_def run_rules world_fields fu)
qed

lemma createProject_created:
  "status_of (fst (createProject u b w)) = Some 201"
  by (cases "b_team b")
     (simp_all add: status_of_def createProject_def run_rules world_fields when_users_run)

subsection \<open>The order of writes and append attempts\<close>

lemma createProjectLog_events: "new_events (createProjectLog p uid a d) w = [LogAttempt a]"
  by (simp add: new_events_def createProjectLog_fields [unfolded after_def])

lemma createProject_events:
  "new_events (createProject u b) w =
     Write Project_save_op #
     (case b_team b of
        None \<Rightarrow> []
      | Some team \<Rightarrow> if 0 < length team then [Write User_updateMany_op] else []) @
     [LogAttempt ''Created'']"
  by (cases "b_team b")
     (simp_all add: new_events_def createProject_def run_rules world_fields when_users_run)

lemma deleteProject_events:
  "new_events (deleteProject u i) w =
     (case find (\<lambda>q. p_id q = i) (projects w) of
        None \<Rightarrow> []
      | Some p \<Rightarrow> [LogAttempt ''Deleted'', Write User_updateMany_op, Write Task_deleteMany_op,
                   Write Project_deleteOne_op])"
  by (cases "find (\<lambda>q. p_id q = i) (projects w)")
     (simp_all add: new_events_def deleteProject_def run_rules world_fields)

lemma updateProject_events:
  "new_events (updateProject u i upd) w =
     (case find (\<lambda>q. p_id q = i) (projects w) of
        None \<Rightarrow> []
      | Some p \<Rightarrow>
          (if status_changed p upd then [LogAttempt ''Status Changed''] else []) @
          (if progress_changed p upd then [LogAttempt ''Progress Updated''] else []) @
          (if 0 < length (assignment_errors upd) then []
           else
             [Write Project_save_op] @
             (case upd_team upd of
                None \<Rightarrow> []
              | Some team \<Rightarrow> [Write User_updateMany_op, Write User_updateMany_op]) @
             (if 0 < length (project_changes p upd) then [LogAttempt ''Updated''] else [])))"
  by (cases "upd_team upd"; cases "find (\<lambda>q. p_id q = i) (projects w)";
      cases "assignment_errors upd")
     (simp_all add: new_events_def updateProject_def run_rules world_fields
        Object_assign_project_fields assign_opt_def filter_notin_self when_io_def)

lemma createTask_events:
  "new_events (createTask u i b) w =
     (case find (\<lambda>q. p_id q = i) (projects w) of
        None \<Rightarrow> []
      | Some p \<Rightarrow>
          if \<not> isAdminOrPM u \<and> \<not> isTeamMember u p then []
          else [Write Task_save_op, LogAttempt ''Task Created''])"
  by (cases "find (\<lambda>q. p_id q = i) (projects w)")
     (simp_all add: new_events_def createTask_def run_rules world_fields)

lemma deleteTask_events:
  "new_events (deleteTask u i) w =
     (case find (\<lambda>t. t_id t = i) (tasks w) of
        None \<Rightarrow> []
      | Some t \<Rightarrow> [LogAttempt ''Task Deleted'', Write Task_findByIdAndDelete_op])"
  by (cases "find (\<lambda>t. t_id t = i) (tasks w)")
     (simp_all add: new_events_def deleteTask_def run_rules world_fields)

lemma addComment_events:
  "new_events (addComment u i ctext) w =
     (case find (\<lambda>t. t_id t = i) (tasks w) of
        None \<Rightarrow> []
      | Some t \<Rightarrow>
          (case find (\<lambda>q. p_id q = t_project t) (projects w) of
             None \<Rightarrow> []
           | Some p \<Rightarrow>
               if \<not> isAdminOrPM u \<and> \<not> isTeamMember u p then []
               else [Write Task_save_op, LogAttempt ''Comment Added'']))"
proof (cases "find (\<lambda>t. t_id t = i) (tasks w)")
  case None
  then show ?thesis by (simp add: new_events_def addComment_def run_rules world_fields)
next
  case (Some t)
  have tid: "t_id t = i" using Some by (rule find_key)
  have fu: "\<And>cs ts. find (\<lambda>x. t_id x = i) (upsert t_id (t\<lparr>t_comments := cs\<rparr>) ts)
              = Some (t\<lparr>t_comments := cs\<rparr>)"
    using find_upsert[of t_id "t\<lparr>t_comments := cs\<rparr>" for cs] tid by simp
  show ?thesis
    using Some
    by (cases "find (\<lambda>p. p_id p = t_project t) (projects w)")
       (simp_all add: new_events_def addComment_def run_rules world_fields fu)
qed

lemma commits_first_simps:
  "commits_first []"
  "commits_first [Write a, LogAttempt x]"
  "commits_first [Write a, Write b, LogAttempt x]"
  by (simp_all add: commits_first_def is_write_def is_attempt_def)

subsection \<open>The log queries\<close>

lemma mset_insert_desc: "mset (insert_desc x ys) = add_mset x (mset ys)"
  by (induction ys) simp_all

lemma set_insert_desc: "set (insert_desc x ys) = insert x (set ys)"
  by (induction ys) auto

lemma newest_first_insert_desc:
  "sorted_wrt (\<lambda>a b. l_timestamp b \<le> l_timestamp a) ys \<Longrightarrow>
   sorted_wrt (\<lambda>a b. l_timestamp b \<le> l_timestamp a) (insert_desc x ys)"
proof (induction ys)
  case Nil
  then show ?case by simp
next
  case (Cons y ys)
  show ?case
  proof (cases "l_timestamp y \<le> l_timestamp x")
    case True
    with Cons.prems show ?thesis by (auto intro: order_trans)
  next
    case False
    with Cons show ?thesis by (auto simp: set_insert_desc)
  qed
qed

lemma mset_sort_timestamp_desc: "mset (sort_timestamp_desc xs) = mset xs"
  by (induction xs) (simp_all add: sort_timestamp_desc_def mset_insert_desc)

lemma newest_first_sort_timestamp_desc:
  "sorted_wrt (\<lambda>a b. l_timestamp b \<le> l_timestamp a) (sort_timestamp_desc xs)"
  by (induction xs) (simp_all add: sort_timestamp_desc_def newest_first_insert_desc)

lemma populate_log_fields:
  "v_id (populate_log w l) = l_id l"
  "v_action (populate_log w l) = l_action l"
  "v_details (populate_log w l) = l_details l"
  "v_timestamp (populate_log w l) = l_timestamp l"
  by (simp_all add: populate_log_def)

lemma getProjectLogs_run:
  "getProjectLogs u pid w =
     (Inr \<lparr>res_status = 200,
           res_body = Logs (map (populate_log w)
                        (sort_timestamp_desc (filter (\<lambda>l. l_project l = pid) (logs w))))\<rparr>, w)"
  by (simp add: getProjectLogs_def ProjectLog_find_def io_defs)

lemma getAllProjectLogs_run:
  "getAllProjectLogs u w =
     (Inr \<lparr>res_status = 200,
           res_body = Logs (map (populate_log w) (sort_timestamp_desc (logs w)))\<rparr>, w)"
  by (simp add: getAllProjectLogs_def ProjectLog_find_def io_defs)

lemma sorted_wrt_populate:
  "sorted_wrt (\<lambda>a b. v_timestamp b \<le> v_timestamp a) (map (populate_log w) ls) =
   sorted_wrt (\<lambda>a b. l_timestamp b \<le> l_timestamp a) ls"
  by (simp add: sorted_wrt_map populate_log_fields)

subsection \<open>The report\<close>

lemma teamStats_run:
  "teamStats pid team w =
     (Inr (map (\<lambda>member.
             \<lparr>ms_name = fst (snd member), ms_email = fst (snd (snd member)),
              ms_tasksCompleted =
                length (filter (\<lambda>t. t_project t = pid \<and> t_assignee t = Some (fst member) \<and>
                                   t_status t = ''Completed'') (tasks w))\<rparr>) team), w)"
  by (induction team) (simp_all add: Task_countDocuments_def io_defs)

lemma getProjectReport_found:
  assumes "find (\<lambda>q. p_id q = pid) (projects w) = Some p"
  shows "getProjectReport u pid w =
     (Inr \<lparr>res_status = 200,
           res_body = Report
             \<lparr>r_status = p_status p,
              r_deadline = p_deadline p,
              r_progress = p_progress p,
              r_budget_used = budget_used (p_budget p),
              r_budget_total = budget_total (p_budget p),
              r_todo = length (filter (\<lambda>t. t_status t = ''To Do'')
                         (filter (\<lambda>t. t_project t = pid) (tasks w))),
              r_inProgress = length (filter (\<lambda>t. t_status t = ''In Progress'')
                               (filter (\<lambda>t. t_project t = pid) (tasks w))),
              r_completed = length (filter (\<lambda>t. t_status t = ''Completed'')
                              (filter (\<lambda>t. t_project t = pid) (tasks w))),
              r_team = map (\<lambda>member.
                  \<lparr>ms_name = fst (snd member), ms_email = fst (snd (snd member)),
                   ms_tasksCompleted =
                     length (filter (\<lambda>t. t_project t = pid \<and> t_assignee t = Some (fst member) \<and>
                                       t_status t = ''Completed'') (tasks w))\<rparr>)
                  (populate_team (users w) (p_team p))\<rparr>\<rparr>, w)"
  using assms
  by (simp add: getProjectReport_def run_rules teamStats_run)

lemma getProjectReport_missing:
  assumes "find (\<lambda>q. p_id q = pid) (projects w) = None"
  shows "getProjectReport u pid w =
     (Inr \<lparr>res_status = 404, res_body = Message ''Project not found''\<rparr>, w)"
  using assms
  by (simp add: getProjectReport_def run_rules)

lemma bucket_partition:
  "length (filter (\<lambda>t. t_status t = ''To Do'') ts)
   + length (filter (\<lambda>t. t_status t = ''In Progress'') ts)
   + length (filter (\<lambda>t. t_status t = ''Completed'') ts)
   + length (filter (\<lambda>t. t_status t \<noteq> ''To Do'' \<and> t_status t \<noteq> ''In Progress'' \<and>
                          t_status t \<noteq> ''Completed'') ts)
   = length ts"
  by (induction ts) auto

lemma budget_used_exact:
  "budget_used None = 0"
  "\<not> odd_multiple x \<Longrightarrow> budget_used (Some x) = x / 2"
  by (simp_all add: budget_used_def times_half_def)

lemma authMiddleware_world: "snd (authMiddleware cred w) = w"
  by (simp add: authMiddleware_def io_defs User_findById_def
      split: credential.splits option.splits)

lemma authMiddleware_returns: "\<exists>a. authMiddleware cred w = (Inr a, w)"
  by (simp add: authMiddleware_def io_defs User_findById_def
      split: credential.splits option.splits)

lemma authMiddleware_refusal:
  "authMiddleware cred w = (Inr (Inl r), w') \<Longrightarrow> res_status r = 401"
  by (auto simp: authMiddleware_def io_defs User_findById_def
      split: credential.splits option.splits)

lemma getProjectReport_returns: "\<exists>r. getProjectReport u j w = (Inr r, w)"
  by (cases "find (\<lambda>q. p_id q = j) (projects w)")
     (simp_all add: getProjectReport_found getProjectReport_missing)

lemma cast_then_report:
  "try_catch (bind_io (ObjectId_cast (IdText j)) (getProjectReport u)) server_error w =
   getProjectReport u j w"
proof -
  obtain r where "getProjectReport u j w = (Inr r, w)"
    using getProjectReport_returns by blast
  then show ?thesis
    by (simp add: try_catch_def bind_io_def ObjectId_cast_def return_io_def)
qed

lemma route_project_report_run:
  assumes "authMiddleware cred w = (Inr a, w)"
  shows "route_project_report cred pp w =
      (case a of
         Inl r \<Rightarrow> (Inr r, w)
       | Inr req_user \<Rightarrow>
           if u_role req_user = ''Administrator'' \<or> u_role req_user = ''Project Manager''
           then (case pp of
                   IdText j \<Rightarrow> getProjectReport req_user j w
                 | OtherText s \<Rightarrow>
                     (Inr \<lparr>res_status = 400, res_body = Message ''Invalid project ID''\<rparr>, w))
           else (Inr \<lparr>res_status = 403, res_body = Message ''Access denied''\<rparr>, w))"
proof (cases a)
  case (Inl r)
  then show ?thesis
    using assms by (simp add: route_project_report_def bind_io_def return_io_def)
next
  case (Inr req_user)
  show ?thesis
  proof (cases pp)
    case (IdText j)
    with Inr assms show ?thesis
      by (simp add: route_project_report_def bind_io_def return_io_def roleMiddleware_def
          validate_def isMongoId_def cast_then_report [unfolded bind_io_def])
  next
    case (OtherText s)
    with Inr assms show ?thesis
      by (simp add: route_project_report_def bind_io_def return_io_def roleMiddleware_def
          validate_def isMongoId_def)
  qed
qed

subsection \<open>Only enumerated actions are persisted\<close>

lemma keeps_validI:
  "(\<And>w. valid_actions (logs w) \<Longrightarrow> valid_actions (logs (snd (m w)))) \<Longrightarrow> keeps_valid m"
  by (auto simp: keeps_valid_def)

lemma keeps_validD:
  "keeps_valid m \<Longrightarrow> valid_actions (logs w) \<Longrightarrow> valid_actions (logs (snd (m w)))"
  by (auto simp: keeps_valid_def)

lemma keeps_same_logs: "(\<And>w. logs (snd (m w)) = logs w) \<Longrightarrow> keeps_valid m"
  by (simp add: keeps_valid_def)

lemma keeps_bind:
  assumes "keeps_valid m" and "\<And>x. keeps_valid (f x)"
  shows "keeps_valid (bind_io m f)"
proof (rule keeps_validI)
  fix w :: world
  assume v: "valid_actions (logs w)"
  obtain r w' where run: "m w = (r, w')" by (cases "m w")
  have v': "valid_actions (logs w')"
    using keeps_validD [OF assms(1) v] run by simp
  show "valid_actions (logs (snd (bind_io m f w)))"
  proof (cases r)
    case (Inl e)
    with run v' show ?thesis by (simp add: bind_io_def)
  next
    case (Inr x)
    with run keeps_validD [OF assms(2) v', of x] show ?thesis by (simp add: bind_io_def)
  qed
qed

lemma keeps_try_catch:
  assumes "keeps_valid m" and "\<And>e. keeps_valid (h e)"
  shows "keeps_valid (try_catch m h)"
proof (rule keeps_validI)
  fix w :: world
  assume v: "valid_actions (logs w)"
  obtain r w' where run: "m w = (r, w')" by (cases "m w")
  have v': "valid_actions (logs w')"
    using keeps_validD [OF assms(1) v] run by simp
  show "valid_actions (logs (snd (try_catch m h w)))"
  proof (cases r)
    case (Inl e)
    with run keeps_validD [OF assms(2) v', of e] show ?thesis by (simp add: try_catch_def)
  next
    case (Inr x)
    with run v' show ?thesis by (simp add: try_catch_def)
  qed
qed

lemma keeps_return: "keeps_valid (return_io x)"
  by (rule keeps_same_logs) (simp add: return_io_def)

lemma keeps_throw: "keeps_valid (throw_io e)"
  by (rule keeps_same_logs) (simp add: throw_io_def)

lemma keeps_respond: "keeps_valid (respond c b)"
  by (simp add: respond_def keeps_return)

lemma keeps_server_error: "keeps_valid (server_error e)"
  by (simp add: server_error_def keeps_respond)

lemma keeps_when: "keeps_valid m \<Longrightarrow> keeps_valid (when_io c m)"
  by (simp add: when_io_def keeps_bind keeps_return)

lemma keeps_if: "keeps_valid a \<Longrightarrow> keeps_valid b \<Longrightarrow> keeps_valid (if c then a else b)"
  by simp

lemma keeps_let: "keeps_valid (f x) \<Longrightarrow> keeps_valid (Let x f)"
  by simp

lemma keeps_option:
  "keeps_valid a \<Longrightarrow> (\<And>y. keeps_valid (b y)) \<Longrightarrow> keeps_valid (case x of None \<Rightarrow> a | Some y \<Rightarrow> b y)"
  by (cases x) simp_all

lemma keeps_sum:
  "(\<And>y. keeps_valid (a y)) \<Longrightarrow> (\<And>y. keeps_valid (b y)) \<Longrightarrow>
   keeps_valid (case x of Inl y \<Rightarrow> a y | Inr y \<Rightarrow> b y)"
  by (cases x) simp_all

lemma keeps_reads:
  "keeps_valid Date_now"
  "keeps_valid new_ObjectId"
  "keeps_valid (Project_findById i)"
  "keeps_valid (Task_findById i)"
  "keeps_valid (Task_find_project i)"
  "keeps_valid (User_findById i)"
  "keeps_valid User_find_all"
  "keeps_valid (Task_countDocuments i j st)"
  "keeps_valid (ProjectLog_find sel)"
  by (rule keeps_same_logs,
      simp add: Date_now_def new_ObjectId_def Project_findById_def Task_findById_def
        Task_find_project_def User_findById_def User_find_all_def Task_countDocuments_def
        ProjectLog_find_def)+

lemma keeps_writes:
  "keeps_valid (Project_save p)"
  "keeps_valid (Project_deleteOne p)"
  "keeps_valid (User_updateMany sel upd)"
  "keeps_valid (Task_save t)"
  "keeps_valid (Task_findByIdAndDelete i)"
  "keeps_valid (Task_deleteMany i)"
  by (rule keeps_same_logs, simp add: world_fields [unfolded after_def])+

lemma keeps_Project_save_assigned: "keeps_valid (Project_save_assigned errs p)"
  by (simp add: Project_save_assigned_def keeps_throw keeps_writes)

lemma keeps_createProjectLog: "keeps_valid (createProjectLog p uid a d)"
  by (rule keeps_validI)
     (simp add: createProjectLog_fields [unfolded after_def] valid_actions_def log_entry_def)

lemma keeps_teamStats: "keeps_valid (teamStats pid team)"
  by (rule keeps_same_logs) (simp add: teamStats_run)

lemma keeps_authMiddleware: "keeps_valid (authMiddleware cred)"
  by (cases cred)
     (simp_all add: authMiddleware_def keeps_return keeps_bind keeps_reads keeps_option)

lemma keeps_ObjectId_cast: "keeps_valid (ObjectId_cast p)"
  by (cases p) (simp_all add: ObjectId_cast_def keeps_return keeps_throw)

lemmas keeps_rules = keeps_bind keeps_try_catch keeps_return keeps_throw keeps_respond
  keeps_server_error keeps_when keeps_if keeps_let keeps_option keeps_sum keeps_reads keeps_writes
  keeps_createProjectLog keeps_teamStats keeps_authMiddleware keeps_ObjectId_cast
  keeps_Project_save_assigned

lemma keeps_queries:
  "keeps_valid (getProjectLogs u i)"
  "keeps_valid (getAllProjectLogs u)"
  "keeps_valid (getProjectReport u i)"
  by (simp add: getProjectLogs_def getAllProjectLogs_def getProjectReport_def Let_def,
      intro keeps_rules)+

lemma keeps_handle: "keeps_valid (handle r)"
proof (cases r)
  case (CreateProject u b)
  then show ?thesis
    by (simp add: createProject_def Let_def) (intro keeps_rules)
next
  case (GetProject u i)
  then show ?thesis
    by (simp add: getProject_def Let_def) (intro keeps_rules)
next
  case (UpdateProject u i upd)
  then show ?thesis
    by (simp add: updateProject_def Let_def) (intro keeps_rules)
next
  case (DeleteProject u i)
  then show ?thesis
    by (simp add: deleteProject_def) (intro keeps_rules)
next
  case (CreateTask u i b)
  then show ?thesis
    by (simp add: createTask_def Let_def) (intro keeps_rules)
next
  case (UpdateTask u i upd)
  then show ?thesis
    by (simp add: updateTask_def Let_def) (intro keeps_rules)
next
  case (DeleteTask u i)
  then show ?thesis
    by (simp add: deleteTask_def) (intro keeps_rules)
next
  case (AddComment u i ctext)
  then show ?thesis
    by (simp add: addComment_def Let_def) (intro keeps_rules)
next
  case (GetProjectLogs cred p)
  then show ?thesis
    by (simp add: route_project_logs_def) (intro keeps_rules keeps_queries)
next
  case (GetAllProjectLogs cred)
  then show ?thesis
    by (simp add: route_all_logs_def) (intro keeps_rules keeps_queries)
next
  case (GetProjectReport cred p)
  then show ?thesis
    by (simp add: route_project_report_def) (intro keeps_rules keeps_queries)
qed

lemma reachable_valid: "reachable w \<Longrightarrow> valid_actions (logs w)"
proof (induction rule: reachable.induct)
  case (start w)
  then show ?case by (simp add: valid_actions_def)
next
  case (request w r)
  then show ?case using keeps_validD [OF keeps_handle] by blast
next
  case (outside w w')
  then show ?case by simp
qed

subsection \<open>Halving a double\<close>

lemma double_scale_pos: "0 < double_scale"
  by (simp add: double_scale_def)

lemma double_scale_split: "j < 1074 \<Longrightarrow> double_scale = 2 ^ j * 2 ^ (1074 - j)"
  by (metis double_scale_def power_add le_add_diff_inverse less_imp_le)

lemma odd_multipleD:
  assumes "odd_multiple x"
  obtains n where "x * double_scale = of_int n" and "odd n"
    and "fst (quotient_of (x * double_scale)) = n"
proof -
  obtain n d where q: "quotient_of (x * double_scale) = (n, d)"
    by (cases "quotient_of (x * double_scale)")
  with assms have d: "d = 1" and o: "odd n"
    by (simp_all add: odd_multiple_def)
  from q d have "x * double_scale = of_int n"
    using quotient_of_div [of "x * double_scale" n 1] by simp
  with o q show ?thesis
    by (intro that [of n]) simp_all
qed

lemma dyadic_not_odd_multiple:
  assumes "j < 1074"
  shows "\<not> odd_multiple (of_int m / 2 ^ j)"
proof -
  let ?k = "m * 2 ^ (1074 - j)"
  have eq: "of_int m / 2 ^ j * double_scale = (of_int ?k :: rat)"
    by (simp add: double_scale_split [OF assms])
  have q: "quotient_of (of_int ?k) = (?k, 1)"
    by (rule quotient_of_rat_of_int)
  have e: "even ?k"
    using assms by simp
  show ?thesis
    unfolding odd_multiple_def eq q fst_conv snd_conv using e by blast
qed

lemma times_half_nearest:
  assumes "odd_multiple x"
  shows "\<bar>times_half x - x / 2\<bar> = 1 / (2 * double_scale)"
    and "\<exists>h. even h \<and> times_half x = of_int h / double_scale"
proof -
  from assms obtain n where n: "x * double_scale = of_int n" and o: "odd n"
    and f: "fst (quotient_of (x * double_scale)) = n"
    by (rule odd_multipleD)
  define h where "h = (n - 1) div 2"
  define r where "r = (if even h then h else h + 1)"
  note pos = double_scale_pos
  have nh: "n = 2 * h + 1"
    using o by (auto simp: h_def elim: oddE)
  have th: "times_half x = of_int r / double_scale"
    using assms f by (simp add: times_half_def Let_def h_def r_def)
  have x: "x = of_int n / double_scale"
    using n pos by (simp add: field_simps)
  have half: "x / 2 = (of_int h + 1 / 2) / double_scale"
    using pos by (simp add: x nh field_simps)
  have diff: "times_half x - x / 2 = (of_int r - of_int h - 1 / 2) / double_scale"
    unfolding th half by (simp only: diff_divide_distrib diff_diff_eq)
  have "\<bar>(of_int r :: rat) - of_int h - 1 / 2\<bar> = 1 / 2"
    by (simp add: r_def)
  then have "\<bar>times_half x - x / 2\<bar> = (1 / 2) / double_scale"
    unfolding diff abs_divide using pos by (simp only: abs_of_pos)
  then show "\<bar>times_half x - x / 2\<bar> = 1 / (2 * double_scale)"
    by simp
  have "even r" by (simp add: r_def)
  with th show "\<exists>h. even h \<and> times_half x = of_int h / double_scale"
    by blast
qed

lemma getProjectReport_summary:
  assumes "find (\<lambda>q. p_id q = pid) (projects w) = Some p"
  shows "\<exists>rep. fst (getProjectReport u pid w) = Inr \<lparr>res_status = 200, res_body = Report rep\<rparr>
     \<and> r_budget_used rep = budget_used (p_budget p)
     \<and> r_todo rep = length (filter (\<lambda>t. t_project t = pid \<and> t_status t = ''To Do'') (tasks w))
     \<and> r_inProgress rep =
         length (filter (\<lambda>t. t_project t = pid \<and> t_status t = ''In Progress'') (tasks w))
     \<and> r_completed rep =
         length (filter (\<lambda>t. t_project t = pid \<and> t_status t = ''Completed'') (tasks w))"
  by (simp add: getProjectReport_found [OF assms])

section \<open>The claims\<close>

text \<open>
  Claim C1 (the code departs from it). A project update that changes the status and no
  other field writes two entries, \<open>Status Changed\<close> and a generic \<open>Updated\<close> whose
  \<open>changes\<close> hold the status again: the generic entry does not cover the remaining,
  untracked fields only. Task updates do the same with \<open>Task Updated\<close>, and a task update
  that changes an untracked field alone (the title) writes no entry at all.
\<close>

theorem updateProject_status_change_logged_twice:
  "map l_action
     (new_logs (updateProject example_bob 10 (no_updates\<lparr>upd_status := Some ''On Hold''\<rparr>))
        example_world) = [''Status Changed'', ''Updated'']
   \<and> map l_details
     (new_logs (updateProject example_bob 10 (no_updates\<lparr>upd_status := Some ''On Hold''\<rparr>))
        example_world) =
       [JObj [(''from'', JStr ''Active''), (''to'', JStr ''On Hold'')],
        JObj [(''changes'',
               JObj [(''status'', JObj [(''from'', JStr ''Active''), (''to'', JStr ''On Hold'')])])]]
   \<and> map l_action
     (new_logs (updateTask example_bob 20 (no_task_updates\<lparr>tu_status := Some ''Completed''\<rparr>))
        example_world) = [''Task Status Changed'', ''Task Updated'']
   \<and> new_logs (updateTask example_bob 20 (no_task_updates\<lparr>tu_title := Some ''Plan B''\<rparr>))
        example_world = []"
  by code_simp

text \<open>
  Claim C2. A failing append to the activity log changes neither the response of a
  mutation handler nor what the handler leaves in the Project, Task and User
  collections: for every handler the outcome under any behaviour \<open>f\<close> of the log storage
  is the outcome of the run in which every append succeeds. Project creation answers 201
  whatever the storage of the log does, and \<open>createProjectLog\<close> returns normally for every
  argument and every world.
\<close>

theorem log_failure_keeps_outcome:
  "(\<exists>r. fst (createProjectLog p uid a d w) = Inr r)
   \<and> outcome (createProject u b) (w\<lparr>log_faults := f\<rparr>) =
       outcome (createProject u b) (w\<lparr>log_faults := []\<rparr>)
   \<and> outcome (updateProject u i upd) (w\<lparr>log_faults := f\<rparr>) =
       outcome (updateProject u i upd) (w\<lparr>log_faults := []\<rparr>)
   \<and> outcome (deleteProject u i) (w\<lparr>log_faults := f\<rparr>) =
       outcome (deleteProject u i) (w\<lparr>log_faults := []\<rparr>)
   \<and> outcome (createTask u i tb) (w\<lparr>log_faults := f\<rparr>) =
       outcome (createTask u i tb) (w\<lparr>log_faults := []\<rparr>)
   \<and> outcome (updateTask u i tupd) (w\<lparr>log_faults := f\<rparr>) =
       outcome (updateTask u i tupd) (w\<lparr>log_faults := []\<rparr>)
   \<and> outcome (deleteTask u i) (w\<lparr>log_faults := f\<rparr>) =
       outcome (deleteTask u i) (w\<lparr>log_faults := []\<rparr>)
   \<and> outcome (addComment u i ctext) (w\<lparr>log_faults := f\<rparr>) =
       outcome (addComment u i ctext) (w\<lparr>log_faults := []\<rparr>)
   \<and> status_of (fst (createProject u b (w\<lparr>log_faults := f\<rparr>))) = Some 201"
proof -
  have ex: "\<exists>r. fst (createProjectLog p uid a d w) = Inr r"
    by (simp add: createProjectLog_fst)
  show ?thesis
    by (intro conjI ex createProject_outcome updateProject_outcome deleteProject_outcome
        createTask_outcome updateTask_outcome deleteTask_outcome addComment_outcome
        createProject_created)
qed

text \<open>
  The same at a concrete run in which the storage rejects the append: the project is
  created and answered with 201, its log entry is lost, and the failure is reported on
  the console.
\<close>

theorem log_failure_keeps_outcome_witness:
  "outcome (createProject example_bob example_body) (example_world\<lparr>log_faults := [True]\<rparr>) =
     outcome (createProject example_bob example_body) (example_world\<lparr>log_faults := []\<rparr>)
   \<and> status_of (fst (createProject example_bob example_body
        (example_world\<lparr>log_faults := [True]\<rparr>))) = Some 201
   \<and> map p_name (projects (snd (createProject example_bob example_body
        (example_world\<lparr>log_faults := [True]\<rparr>)))) = [''Apollo'', ''Gemini'']
   \<and> new_logs (createProject example_bob example_body) (example_world\<lparr>log_faults := [True]\<rparr>) = []
   \<and> console (snd (createProject example_bob example_body
        (example_world\<lparr>log_faults := [True]\<rparr>))) = [''Error creating project log:'']
   \<and> map l_action (new_logs (createProject example_bob example_body)
        (example_world\<lparr>log_faults := []\<rparr>)) = [''Created'']"
proof -
  have same: "outcome (createProject example_bob example_body) (example_world\<lparr>log_faults := [True]\<rparr>) =
     outcome (createProject example_bob example_body) (example_world\<lparr>log_faults := []\<rparr>)"
    and created: "status_of (fst (createProject example_bob example_body
        (example_world\<lparr>log_faults := [True]\<rparr>))) = Some 201"
    using log_failure_keeps_outcome [where w = example_world and u = example_bob
        and b = example_body and f = "[True]"]
    by blast+
  have rest: "map p_name (projects (snd (createProject example_bob example_body
        (example_world\<lparr>log_faults := [True]\<rparr>)))) = [''Apollo'', ''Gemini'']
   \<and> new_logs (createProject example_bob example_body) (example_world\<lparr>log_faults := [True]\<rparr>) = []
   \<and> console (snd (createProject example_bob example_body
        (example_world\<lparr>log_faults := [True]\<rparr>))) = [''Error creating project log:'']
   \<and> map l_action (new_logs (createProject example_bob example_body)
        (example_world\<lparr>log_faults := []\<rparr>)) = [''Created'']"
    by code_simp
  show ?thesis using same created rest by blast
qed

text \<open>
  Claim C3 (the code departs from it). Dave is a Collaborator and not in the team of
  project 10. His query of the logs of project 10 is answered with 200 and the entries of
  the project, not with 403: the route has no role middleware and \<open>getProjectLogs\<close> does
  not look at the caller. The sibling handler \<open>getProject\<close> refuses the same caller with
  403. Carol, a Collaborator in the team, gets the same answer as Dave.
\<close>

theorem project_logs_served_to_outsider:
  "u_role example_dave = ''Collaborator''
   \<and> \<not> isTeamMember example_dave example_project
   \<and> status_of (fst (route_project_logs (TokenFor 4) (IdText 10) example_log_world)) = Some 200
   \<and> map v_id (listed (fst (route_project_logs (TokenFor 4) (IdText 10) example_log_world)))
        = [53, 50, 51]
   \<and> status_of (fst (getProject example_dave 10 example_log_world)) = Some 403
   \<and> isTeamMember example_carol example_project
   \<and> fst (route_project_logs (TokenFor 3) (IdText 10) example_log_world)
        = fst (route_project_logs (TokenFor 4) (IdText 10) example_log_world)"
  by code_simp

text \<open>
  Claim C4, as stated, fails: the deletion of a project attempts the append of its
  \<open>Deleted\<close> entry before anything is written to the Project, Task or User collection.
\<close>

theorem deleteProject_logs_before_commit:
  "new_events (deleteProject example_alice 10) example_world =
     [LogAttempt ''Deleted'', Write User_updateMany_op, Write Task_deleteMany_op,
      Write Project_deleteOne_op]
   \<and> \<not> commits_first (new_events (deleteProject example_alice 10) example_world)"
  by code_simp

text \<open>
  Claim C4, amended. Project creation, task creation and comment addition write the
  entity first and attempt the append of their one entry afterwards, exactly once. The
  deletion of a project or of a task attempts the append of its one entry first, exactly
  once, and deletes afterwards. A handler that refuses the request writes and appends
  nothing. Every call of \<open>createProjectLog\<close> makes exactly one append attempt. All this
  holds for every behaviour of the log storage, so a failed append is not tried again.
  The amended claim says nothing about the order within an update of a project or task.
\<close>

theorem append_order:
  "new_events (createProject u b) w =
     Write Project_save_op #
     (case b_team b of
        None \<Rightarrow> []
      | Some team \<Rightarrow> if 0 < length team then [Write User_updateMany_op] else []) @
     [LogAttempt ''Created'']
   \<and> new_events (createTask u i tb) w =
       (case find (\<lambda>q. p_id q = i) (projects w) of
          None \<Rightarrow> []
        | Some p \<Rightarrow>
            if \<not> isAdminOrPM u \<and> \<not> isTeamMember u p then []
            else [Write Task_save_op, LogAttempt ''Task Created''])
   \<and> new_events (addComment u i ctext) w =
       (case find (\<lambda>t. t_id t = i) (tasks w) of
          None \<Rightarrow> []
        | Some t \<Rightarrow>
            (case find (\<lambda>q. p_id q = t_project t) (projects w) of
               None \<Rightarrow> []
             | Some p \<Rightarrow>
                 if \<not> isAdminOrPM u \<and> \<not> isTeamMember u p then []
                 else [Write Task_save_op, LogAttempt ''Comment Added'']))
   \<and> new_events (deleteProject u i) w =
       (case find (\<lambda>q. p_id q = i) (projects w) of
          None \<Rightarrow> []
        | Some p \<Rightarrow> [LogAttempt ''Deleted'', Write User_updateMany_op, Write Task_deleteMany_op,
                     Write Project_deleteOne_op])
   \<and> new_events (deleteTask u i) w =
       (case find (\<lambda>t. t_id t = i) (tasks w) of
          None \<Rightarrow> []
        | Some t \<Rightarrow> [LogAttempt ''Task Deleted'', Write Task_findByIdAndDelete_op])
   \<and> new_events (createProjectLog pid uid a d) w = [LogAttempt a]
   \<and> commits_first (new_events (createProject u b) w)
   \<and> commits_first (new_events (createTask u i tb) w)
   \<and> commits_first (new_events (addComment u i ctext) w)"
proof -
  have c1: "commits_first (new_events (createProject u b) w)"
    by (cases "b_team b") (simp_all add: createProject_events commits_first_simps)
  have c2: "commits_first (new_events (createTask u i tb) w)"
    by (simp add: createTask_events commits_first_simps split: option.splits)
  have c3: "commits_first (new_events (addComment u i ctext) w)"
    by (simp add: addComment_events commits_first_simps split: option.splits)
  show ?thesis
    by (intro conjI c1 c2 c3 createProjectLog_events createProject_events createTask_events
        addComment_events deleteProject_events deleteTask_events)
qed

theorem append_order_witness:
  "new_events (createProject example_bob example_body) example_world =
     [Write Project_save_op, Write User_updateMany_op, LogAttempt ''Created'']
   \<and> new_events (createProject example_bob example_body) (example_world\<lparr>log_faults := [True]\<rparr>) =
     [Write Project_save_op, Write User_updateMany_op, LogAttempt ''Created'']
   \<and> new_events (createTask example_carol 10 example_task_body) example_world =
     [Write Task_save_op, LogAttempt ''Task Created'']
   \<and> new_events (createTask example_dave 10 example_task_body) example_world = []
   \<and> new_events (addComment example_carol 20 ''Done'') example_world =
     [Write Task_save_op, LogAttempt ''Comment Added'']
   \<and> new_events (deleteProject example_alice 10) example_world =
     [LogAttempt ''Deleted'', Write User_updateMany_op, Write Task_deleteMany_op,
      Write Project_deleteOne_op]
   \<and> new_events (deleteTask example_bob 20) example_world =
     [LogAttempt ''Task Deleted'', Write Task_findByIdAndDelete_op]
   \<and> new_events (deleteTask example_bob 99) example_world = []"
proof -
  have team: "b_team example_body = Some [3]"
    by (simp add: example_body_def)
  have p: "find (\<lambda>q. p_id q = 10) (projects example_world) = Some example_project"
    by (simp add: example_world_def example_project_def)
  have t: "find (\<lambda>t. t_id t = 20) (tasks example_world)
             = Some (example_task 20 ''Plan'' ''To Do'' (Some 3))"
    by (simp add: example_world_def example_task_def)
  have t99: "find (\<lambda>t. t_id t = 99) (tasks example_world) = None"
    by (simp add: example_world_def example_task_def)
  have tp: "t_project (example_task 20 ''Plan'' ''To Do'' (Some 3)) = 10"
    by (simp add: example_task_def)
  have carol: "isTeamMember example_carol example_project"
    by (simp add: isTeamMember_def example_carol_def example_project_def)
  have dave: "\<not> isAdminOrPM example_dave \<and> \<not> isTeamMember example_dave example_project"
    by (simp add: isAdminOrPM_def isTeamMember_def example_dave_def example_project_def)
  note o1 = append_order [where u = example_bob and b = example_body and w = example_world
      and i = 20]
  note o2 = append_order [where u = example_bob and b = example_body
      and w = "example_world\<lparr>log_faults := [True]\<rparr>"]
  note o3 = append_order [where u = example_carol and i = 10 and tb = example_task_body
      and w = example_world]
  note o4 = append_order [where u = example_dave and i = 10 and tb = example_task_body
      and w = example_world]
  note o5 = append_order [where u = example_carol and i = 20 and ctext = "''Done''"
      and w = example_world]
  note o6 = append_order [where u = example_alice and i = 10 and w = example_world]
  note o7 = append_order [where u = example_bob and i = 99 and w = example_world]
  have a1: "new_events (createProject example_bob example_body) example_world =
     [Write Project_save_op, Write User_updateMany_op, LogAttempt ''Created'']"
    using o1 team by simp
  have a2: "new_events (createProject example_bob example_body)
       (example_world\<lparr>log_faults := [True]\<rparr>) =
     [Write Project_save_op, Write User_updateMany_op, LogAttempt ''Created'']"
    using o2 team by simp
  have a3: "new_events (createTask example_carol 10 example_task_body) example_world =
     [Write Task_save_op, LogAttempt ''Task Created'']"
    using o3 p carol by simp
  have a4: "new_events (createTask example_dave 10 example_task_body) example_world = []"
    using o4 p dave by simp
  have a5: "new_events (addComment example_carol 20 ''Done'') example_world =
     [Write Task_save_op, LogAttempt ''Comment Added'']"
    using o5 p t tp carol by simp
  have a6: "new_events (deleteProject example_alice 10) example_world =
     [LogAttempt ''Deleted'', Write User_updateMany_op, Write Task_deleteMany_op,
      Write Project_deleteOne_op]"
    using o6 p by simp
  have a7: "new_events (deleteTask example_bob 20) example_world =
     [LogAttempt ''Task Deleted'', Write Task_findByIdAndDelete_op]"
    using o1 t by simp
  have a8: "new_events (deleteTask example_bob 99) example_world = []"
    using o7 t99 by simp
  show ?thesis
    using a1 a2 a3 a4 a5 a6 a7 a8 by blast
qed

text \<open>
  Claim C5 (the code departs from it). The team of project 10 is changed from [3] to
  [3, 4]. The handler stores the new team and writes no entry: it reads the
  \<open>current\<close> team after \<open>Object.assign\<close> has replaced it by the requested one, so no
  member is ever found added or removed.
\<close>

theorem updateProject_team_change_unlogged:
  "map p_team (projects example_world) = [[3]]
   \<and> map p_team (projects (snd (updateProject example_bob 10
        (no_updates\<lparr>upd_team := Some [3, 4]\<rparr>) example_world))) = [[3, 4]]
   \<and> new_logs (updateProject example_bob 10 (no_updates\<lparr>upd_team := Some [3, 4]\<rparr>))
        example_world = []
   \<and> new_events (updateProject example_bob 10 (no_updates\<lparr>upd_team := Some [3, 4]\<rparr>))
        example_world = [Write Project_save_op, Write User_updateMany_op, Write User_updateMany_op]"
  by code_simp

text \<open>
  Claim C6, as stated, fails. Project 10 has three stored entries; the acting user of
  one of them (id 5) is no longer stored, and that entry is returned with the user
  \<open>null\<close>, not resolved to a name and an email. Two of the entries carry the same
  timestamp, so the result is not strictly descending either.
\<close>

theorem getProjectLogs_unresolved_user:
  "map l_user (filter (\<lambda>l. l_project l = 10) (logs example_log_world)) = [Some 5, Some 3, Some 2]
   \<and> map v_id (listed (fst (getProjectLogs example_alice 10 example_log_world))) = [53, 50, 51]
   \<and> map v_user (listed (fst (getProjectLogs example_alice 10 example_log_world))) =
        [Some (2, ''Bob'', ''bob@easypm.test''), None, Some (3, ''Carol'', ''carol@easypm.test'')]
   \<and> map v_timestamp (listed (fst (getProjectLogs example_alice 10 example_log_world))) =
        [700, 500, 500]"
  by code_simp

text \<open>
  Claim C6, amended. For every project id and every stored log, the project-scoped query
  answers 200 with exactly the stored entries whose project reference is that id, each
  once, newest first (entries of equal timestamp in either order), and changes nothing.
  The acting user of an entry is resolved to id, name and email when that user is
  stored; it is \<open>null\<close> when the entry has no acting user or the user is no longer
  stored. The system-wide query does the same over all stored entries.
\<close>

theorem log_queries_contract:
  "(\<exists>ls. getProjectLogs u pid w =
           (Inr \<lparr>res_status = 200, res_body = Logs (map (populate_log w) ls)\<rparr>, w)
         \<and> mset ls = mset (filter (\<lambda>l. l_project l = pid) (logs w))
         \<and> sorted_wrt (\<lambda>a b. l_timestamp b \<le> l_timestamp a) ls)
   \<and> sorted_wrt (\<lambda>a b. v_timestamp b \<le> v_timestamp a) (listed (fst (getProjectLogs u pid w)))
   \<and> (\<exists>ls. getAllProjectLogs u w =
           (Inr \<lparr>res_status = 200, res_body = Logs (map (populate_log w) ls)\<rparr>, w)
         \<and> mset ls = mset (logs w)
         \<and> sorted_wrt (\<lambda>a b. l_timestamp b \<le> l_timestamp a) ls)
   \<and> v_id (populate_log w l) = l_id l
   \<and> v_action (populate_log w l) = l_action l
   \<and> v_details (populate_log w l) = l_details l
   \<and> v_timestamp (populate_log w l) = l_timestamp l
   \<and> (l_user l = Some uid \<and> find (\<lambda>x. u_id x = uid) (users w) = Some usr \<longrightarrow>
        v_user (populate_log w l) = Some (uid, u_name usr, u_email usr))
   \<and> (l_user l = Some uid \<and> find (\<lambda>x. u_id x = uid) (users w) = None \<longrightarrow>
        v_user (populate_log w l) = None)
   \<and> (l_user l = None \<longrightarrow> v_user (populate_log w l) = None)"
proof -
  let ?P = "sort_timestamp_desc (filter (\<lambda>l. l_project l = pid) (logs w))"
  let ?A = "sort_timestamp_desc (logs w)"
  have scoped: "\<exists>ls. getProjectLogs u pid w =
           (Inr \<lparr>res_status = 200, res_body = Logs (map (populate_log w) ls)\<rparr>, w)
         \<and> mset ls = mset (filter (\<lambda>l. l_project l = pid) (logs w))
         \<and> sorted_wrt (\<lambda>a b. l_timestamp b \<le> l_timestamp a) ls"
    by (rule exI [of _ ?P])
       (simp add: getProjectLogs_run mset_sort_timestamp_desc newest_first_sort_timestamp_desc)
  have out: "sorted_wrt (\<lambda>a b. v_timestamp b \<le> v_timestamp a)
               (listed (fst (getProjectLogs u pid w)))"
    by (simp add: getProjectLogs_run listed_def sorted_wrt_populate
        newest_first_sort_timestamp_desc)
  have all: "\<exists>ls. getAllProjectLogs u w =
           (Inr \<lparr>res_status = 200, res_body = Logs (map (populate_log w) ls)\<rparr>, w)
         \<and> mset ls = mset (logs w)
         \<and> sorted_wrt (\<lambda>a b. l_timestamp b \<le> l_timestamp a) ls"
    by (rule exI [of _ ?A])
       (simp add: getAllProjectLogs_run mset_sort_timestamp_desc newest_first_sort_timestamp_desc)
  have usr: "l_user l = Some uid \<and> find (\<lambda>x. u_id x = uid) (users w) = Some usr \<longrightarrow>
        v_user (populate_log w l) = Some (uid, u_name usr, u_email usr)"
    by (auto simp: populate_log_def dest: find_key)
  have gone: "l_user l = Some uid \<and> find (\<lambda>x. u_id x = uid) (users w) = None \<longrightarrow>
        v_user (populate_log w l) = None"
    by (simp add: populate_log_def)
  have none: "l_user l = None \<longrightarrow> v_user (populate_log w l) = None"
    by (simp add: populate_log_def)
  show ?thesis
    using scoped out all usr gone none by (simp add: populate_log_fields)
qed

theorem log_queries_contract_witness:
  "l_user (example_logs ! 1) = Some 3
   \<and> find (\<lambda>x. u_id x = 3) (users example_log_world) = Some example_carol
   \<and> v_user (populate_log example_log_world (example_logs ! 1)) =
        Some (3, ''Carol'', ''carol@easypm.test'')
   \<and> l_user (example_logs ! 0) = Some 5
   \<and> find (\<lambda>x. u_id x = 5) (users example_log_world) = None
   \<and> v_user (populate_log example_log_world (example_logs ! 0)) = None
   \<and> sorted_wrt (\<lambda>a b. v_timestamp b \<le> v_timestamp a)
        (listed (fst (getProjectLogs example_alice 10 example_log_world)))
   \<and> map v_id (listed (fst (getProjectLogs example_alice 10 example_log_world))) = [53, 50, 51]"
proof -
  have h1: "l_user (example_logs ! 1) = Some 3"
    by (simp add: example_logs_def)
  have h2: "find (\<lambda>x. u_id x = 3) (users example_log_world) = Some example_carol"
    by (simp add: example_log_world_def example_world_def example_alice_def example_bob_def
        example_carol_def)
  have h3: "l_user (example_logs ! 0) = Some 5"
    by (simp add: example_logs_def)
  have h4: "find (\<lambda>x. u_id x = 5) (users example_log_world) = None"
    by (simp add: example_log_world_def example_world_def example_alice_def example_bob_def
        example_carol_def example_dave_def)
  note q1 = log_queries_contract [where w = example_log_world and l = "example_logs ! 1"
      and uid = 3 and usr = example_carol and u = example_alice and pid = 10]
  note q0 = log_queries_contract [where w = example_log_world and l = "example_logs ! 0"
      and uid = 5 and u = example_alice and pid = 10]
  have a: "v_user (populate_log example_log_world (example_logs ! 1)) =
        Some (3, u_name example_carol, u_email example_carol)"
    using q1 h1 h2 by blast
  have b: "v_user (populate_log example_log_world (example_logs ! 0)) = None"
    using q0 h3 h4 by blast
  have c: "sorted_wrt (\<lambda>a b. v_timestamp b \<le> v_timestamp a)
        (listed (fst (getProjectLogs example_alice 10 example_log_world)))"
    using q0 by blast
  have d: "map v_id (listed (fst (getProjectLogs example_alice 10 example_log_world)))
             = [53, 50, 51]"
    by code_simp
  show ?thesis
    using h1 h2 h3 h4 a b c d by (simp add: example_carol_def)
qed

text \<open>
  Claim C7, as stated, fails. A project whose budget is the smallest positive Number
  (\<open>5e-324\<close>, stored through the API as a decimal string) is reported with a budget used of
  0, which is not half of its budget: the product \<open>budget * 0.5\<close> underflows.
\<close>

theorem report_budget_underflow:
  "p_budget example_tiny_project = Some (1 / double_scale)
   \<and> find (\<lambda>q. p_id q = 10) (projects example_tiny_world) = Some example_tiny_project
   \<and> reported_used (fst (getProjectReport example_bob 10 example_tiny_world)) = Some 0
   \<and> 1 / double_scale / 2 \<noteq> 0"
proof -
  have b: "p_budget example_tiny_project = Some (1 / double_scale)"
    by (simp add: example_tiny_project_def)
  have f: "find (\<lambda>q. p_id q = 10) (projects example_tiny_world) = Some example_tiny_project"
    by (simp add: example_tiny_world_def example_tiny_project_def example_project_def)
  have u: "budget_used (Some (1 / double_scale)) = 0"
    using double_scale_pos by (simp add: budget_used_def times_half_def odd_multiple_def)
  have r: "reported_used (fst (getProjectReport example_bob 10 example_tiny_world)) = Some 0"
    by (simp add: getProjectReport_found [OF f] reported_used_def b u)
  have n: "1 / double_scale / 2 \<noteq> 0"
    using double_scale_pos by simp
  show ?thesis using b f r n by blast
qed

text \<open>
  Claim C7, amended. For a stored project the report's budget-used figure is the budget
  times 0.5 as the Number arithmetic computes it, and 0 when the project has no budget.
  That is exactly half the budget unless the budget is an odd multiple of \<open>2^-1074\<close>; in
  particular it is exactly half for every budget that is a whole number or has fewer
  than 1074 binary fraction digits. For an odd multiple of \<open>2^-1074\<close> it is the neighbouring
  even multiple, which is \<open>2^-1075\<close> away from the half. The three bucket counts are the
  numbers of the project's tasks whose status is \<open>To Do\<close>, \<open>In Progress\<close> and \<open>Completed\<close>;
  their sum is at most the number of the project's tasks, and smaller as soon as one task
  of the project has another status.
\<close>

theorem report_budget_and_buckets:
  assumes "find (\<lambda>q. p_id q = pid) (projects w) = Some p"
  shows "\<exists>rep. fst (getProjectReport u pid w) = Inr \<lparr>res_status = 200, res_body = Report rep\<rparr>
     \<and> (p_budget p = None \<longrightarrow> r_budget_used rep = 0)
     \<and> (\<forall>x. p_budget p = Some x \<and> \<not> odd_multiple x \<longrightarrow> r_budget_used rep = x / 2)
     \<and> (\<forall>m j. p_budget p = Some (of_int m / 2 ^ j) \<and> j < 1074 \<longrightarrow>
           r_budget_used rep = of_int m / 2 ^ j / 2)
     \<and> (\<forall>x. p_budget p = Some x \<and> odd_multiple x \<longrightarrow>
           \<bar>r_budget_used rep - x / 2\<bar> = 1 / (2 * double_scale) \<and>
           (\<exists>h. even h \<and> r_budget_used rep = of_int h / double_scale))
     \<and> r_todo rep = length (filter (\<lambda>t. t_project t = pid \<and> t_status t = ''To Do'') (tasks w))
     \<and> r_inProgress rep =
         length (filter (\<lambda>t. t_project t = pid \<and> t_status t = ''In Progress'') (tasks w))
     \<and> r_completed rep =
         length (filter (\<lambda>t. t_project t = pid \<and> t_status t = ''Completed'') (tasks w))
     \<and> r_todo rep + r_inProgress rep + r_completed rep
         \<le> length (filter (\<lambda>t. t_project t = pid) (tasks w))
     \<and> ((\<exists>t \<in> set (tasks w). t_project t = pid \<and> t_status t \<noteq> ''To Do'' \<and>
            t_status t \<noteq> ''In Progress'' \<and> t_status t \<noteq> ''Completed'') \<longrightarrow>
         r_todo rep + r_inProgress rep + r_completed rep
           < length (filter (\<lambda>t. t_project t = pid) (tasks w)))"
proof -
  let ?ts = "filter (\<lambda>t. t_project t = pid) (tasks w)"
  have part: "length (filter (\<lambda>t. t_project t = pid \<and> t_status t = ''To Do'') (tasks w))
      + length (filter (\<lambda>t. t_project t = pid \<and> t_status t = ''In Progress'') (tasks w))
      + length (filter (\<lambda>t. t_project t = pid \<and> t_status t = ''Completed'') (tasks w))
      + length (filter (\<lambda>t. t_project t = pid \<and> (t_status t \<noteq> ''To Do'' \<and>
          t_status t \<noteq> ''In Progress'' \<and> t_status t \<noteq> ''Completed'')) (tasks w))
      = length ?ts"
    using bucket_partition [of ?ts] by simp
  have strict: "0 < length (filter (\<lambda>t. t_project t = pid \<and> (t_status t \<noteq> ''To Do'' \<and>
          t_status t \<noteq> ''In Progress'' \<and> t_status t \<noteq> ''Completed'')) (tasks w))"
    if "\<exists>t \<in> set (tasks w). t_project t = pid \<and> t_status t \<noteq> ''To Do'' \<and>
            t_status t \<noteq> ''In Progress'' \<and> t_status t \<noteq> ''Completed''"
  proof -
    from that obtain t where "t \<in> set (filter (\<lambda>t. t_project t = pid \<and> (t_status t \<noteq> ''To Do'' \<and>
          t_status t \<noteq> ''In Progress'' \<and> t_status t \<noteq> ''Completed'')) (tasks w))"
      by auto
    then show ?thesis by (rule length_pos_if_in_set)
  qed
  have le: "length (filter (\<lambda>t. t_project t = pid \<and> t_status t = ''To Do'') (tasks w))
      + length (filter (\<lambda>t. t_project t = pid \<and> t_status t = ''In Progress'') (tasks w))
      + length (filter (\<lambda>t. t_project t = pid \<and> t_status t = ''Completed'') (tasks w))
      \<le> length ?ts"
    using part by linarith
  have less: "length (filter (\<lambda>t. t_project t = pid \<and> t_status t = ''To Do'') (tasks w))
      + length (filter (\<lambda>t. t_project t = pid \<and> t_status t = ''In Progress'') (tasks w))
      + length (filter (\<lambda>t. t_project t = pid \<and> t_status t = ''Completed'') (tasks w))
      < length ?ts"
    if "\<exists>t \<in> set (tasks w). t_project t = pid \<and> t_status t \<noteq> ''To Do'' \<and>
            t_status t \<noteq> ''In Progress'' \<and> t_status t \<noteq> ''Completed''"
    using part strict [OF that] by linarith
  have unset: "p_budget p = None \<longrightarrow> budget_used (p_budget p) = 0"
    by (simp add: budget_used_exact)
  have exact: "\<forall>x. p_budget p = Some x \<and> \<not> odd_multiple x \<longrightarrow> budget_used (p_budget p) = x / 2"
    by (simp add: budget_used_exact)
  have dyadic: "\<forall>m j. p_budget p = Some (of_int m / 2 ^ j) \<and> j < 1074 \<longrightarrow>
           budget_used (p_budget p) = of_int m / 2 ^ j / 2"
    by (simp add: budget_used_exact dyadic_not_odd_multiple)
  have rounded: "\<forall>x. p_budget p = Some x \<and> odd_multiple x \<longrightarrow>
           \<bar>budget_used (p_budget p) - x / 2\<bar> = 1 / (2 * double_scale) \<and>
           (\<exists>h. even h \<and> budget_used (p_budget p) = of_int h / double_scale)"
  proof (intro allI impI)
    fix x
    assume a: "p_budget p = Some x \<and> odd_multiple x"
    then have "x \<noteq> 0"
      by (auto simp: odd_multiple_def)
    then have "budget_used (p_budget p) = times_half x"
      using a by (simp add: budget_used_def)
    with times_half_nearest [of x] a
    show "\<bar>budget_used (p_budget p) - x / 2\<bar> = 1 / (2 * double_scale) \<and>
           (\<exists>h. even h \<and> budget_used (p_budget p) = of_int h / double_scale)"
      by simp
  qed
  from getProjectReport_summary [OF assms, of u]
  obtain rep where run: "fst (getProjectReport u pid w) = Inr \<lparr>res_status = 200, res_body = Report rep\<rparr>"
    and used: "r_budget_used rep = budget_used (p_budget p)"
    and todo: "r_todo rep =
        length (filter (\<lambda>t. t_project t = pid \<and> t_status t = ''To Do'') (tasks w))"
    and prog: "r_inProgress rep =
        length (filter (\<lambda>t. t_project t = pid \<and> t_status t = ''In Progress'') (tasks w))"
    and comp: "r_completed rep =
        length (filter (\<lambda>t. t_project t = pid \<and> t_status t = ''Completed'') (tasks w))"
    by blast
  show ?thesis
  proof (intro exI [of _ rep] conjI)
    show "fst (getProjectReport u pid w) = Inr \<lparr>res_status = 200, res_body = Report rep\<rparr>"
      by (rule run)
    show "p_budget p = None \<longrightarrow> r_budget_used rep = 0"
      using unset by (simp only: used)
    show "\<forall>x. p_budget p = Some x \<and> \<not> odd_multiple x \<longrightarrow> r_budget_used rep = x / 2"
      using exact by (simp only: used)
    show "\<forall>m j. p_budget p = Some (of_int m / 2 ^ j) \<and> j < 1074 \<longrightarrow>
           r_budget_used rep = of_int m / 2 ^ j / 2"
      using dyadic by (simp only: used)
    show "\<forall>x. p_budget p = Some x \<and> odd_multiple x \<longrightarrow>
           \<bar>r_budget_used rep - x / 2\<bar> = 1 / (2 * double_scale) \<and>
           (\<exists>h. even h \<and> r_budget_used rep = of_int h / double_scale)"
      using rounded by (simp only: used)
    show "r_todo rep =
        length (filter (\<lambda>t. t_project t = pid \<and> t_status t = ''To Do'') (tasks w))"
      by (rule todo)
    show "r_inProgress rep =
        length (filter (\<lambda>t. t_project t = pid \<and> t_status t = ''In Progress'') (tasks w))"
      by (rule prog)
    show "r_completed rep =
        length (filter (\<lambda>t. t_project t = pid \<and> t_status t = ''Completed'') (tasks w))"
      by (rule comp)
    show "r_todo rep + r_inProgress rep + r_completed rep
         \<le> length (filter (\<lambda>t. t_project t = pid) (tasks w))"
      using le by (simp only: todo prog comp)
    show "(\<exists>t \<in> set (tasks w). t_project t = pid \<and> t_status t \<noteq> ''To Do'' \<and>
            t_status t \<noteq> ''In Progress'' \<and> t_status t \<noteq> ''Completed'') \<longrightarrow>
         r_todo rep + r_inProgress rep + r_completed rep
           < length (filter (\<lambda>t. t_project t = pid) (tasks w))"
      using less by (simp only: todo prog comp) blast
  qed
qed

theorem report_budget_and_buckets_witness:
  "find (\<lambda>q. p_id q = 10) (projects example_world) = Some example_project
   \<and> p_budget example_project = Some (of_int 50000 / 2 ^ 0)
   \<and> (\<exists>rep. fst (getProjectReport example_bob 10 example_world)
               = Inr \<lparr>res_status = 200, res_body = Report rep\<rparr>
        \<and> r_budget_used rep = 25000
        \<and> r_todo rep = 1 \<and> r_inProgress rep = 0 \<and> r_completed rep = 1
        \<and> r_todo rep + r_inProgress rep + r_completed rep
            < length (filter (\<lambda>t. t_project t = 10) (tasks example_world)))"
proof -
  have h: "find (\<lambda>q. p_id q = 10) (projects example_world) = Some example_project"
    by (simp add: example_world_def example_project_def)
  have other: "\<exists>t \<in> set (tasks example_world). t_project t = 10 \<and> t_status t \<noteq> ''To Do'' \<and>
            t_status t \<noteq> ''In Progress'' \<and> t_status t \<noteq> ''Completed''"
    by (simp add: example_world_def example_task_def)
  have b: "p_budget example_project = Some (of_int 50000 / 2 ^ 0)"
    by (simp add: example_project_def)
  have n: "length (filter (\<lambda>t. t_project t = 10 \<and> t_status t = ''To Do'') (tasks example_world)) = 1
    \<and> length (filter (\<lambda>t. t_project t = 10 \<and> t_status t = ''In Progress'') (tasks example_world)) = 0
    \<and> length (filter (\<lambda>t. t_project t = 10 \<and> t_status t = ''Completed'') (tasks example_world)) = 1"
    by (simp add: example_world_def example_task_def)
  from report_budget_and_buckets [OF h, of example_bob]
  obtain rep where rep: "fst (getProjectReport example_bob 10 example_world)
               = Inr \<lparr>res_status = 200, res_body = Report rep\<rparr>"
    and used: "\<forall>m j. p_budget example_project = Some (of_int m / 2 ^ j) \<and> j < 1074 \<longrightarrow>
           r_budget_used rep = of_int m / 2 ^ j / 2"
    and todo: "r_todo rep =
        length (filter (\<lambda>t. t_project t = 10 \<and> t_status t = ''To Do'') (tasks example_world))"
    and prog: "r_inProgress rep =
        length (filter (\<lambda>t. t_project t = 10 \<and> t_status t = ''In Progress'') (tasks example_world))"
    and comp: "r_completed rep =
        length (filter (\<lambda>t. t_project t = 10 \<and> t_status t = ''Completed'') (tasks example_world))"
    and less: "(\<exists>t \<in> set (tasks example_world). t_project t = 10 \<and> t_status t \<noteq> ''To Do'' \<and>
            t_status t \<noteq> ''In Progress'' \<and> t_status t \<noteq> ''Completed'') \<longrightarrow>
         r_todo rep + r_inProgress rep + r_completed rep
           < length (filter (\<lambda>t. t_project t = 10) (tasks example_world))"
    by blast
  have "r_budget_used rep = of_int 50000 / 2 ^ 0 / 2"
    using used b by (metis zero_less_numeral)
  then have used': "r_budget_used rep = 25000"
    by simp
  have "fst (getProjectReport example_bob 10 example_world)
               = Inr \<lparr>res_status = 200, res_body = Report rep\<rparr>
        \<and> r_budget_used rep = 25000
        \<and> r_todo rep = 1 \<and> r_inProgress rep = 0 \<and> r_completed rep = 1
        \<and> r_todo rep + r_inProgress rep + r_completed rep
            < length (filter (\<lambda>t. t_project t = 10) (tasks example_world))"
    using rep used' todo prog comp less other n by simp
  then show ?thesis using h b by blast
qed

text \<open>
  Claim C8. The report route answers 200 only to a caller whose role is Administrator or
  Project Manager; for such a caller it answers 404 when no project has the requested
  id and 200 when one has; and neither the route nor the handler changes the world: the
  projects, tasks, users and logs are as before, and nothing is written or appended.
\<close>

theorem report_route_contract:
  "(status_of (fst (route_project_report cred pp w)) = Some 200 \<longrightarrow>
      (\<exists>usr. fst (authMiddleware cred w) = Inr (Inr usr) \<and>
             (u_role usr = ''Administrator'' \<or> u_role usr = ''Project Manager'')))
   \<and> (fst (authMiddleware cred w) = Inr (Inr usr) \<and>
        (u_role usr = ''Administrator'' \<or> u_role usr = ''Project Manager'') \<and>
        find (\<lambda>q. p_id q = i) (projects w) = None \<longrightarrow>
        fst (route_project_report cred (IdText i) w) =
          Inr \<lparr>res_status = 404, res_body = Message ''Project not found''\<rparr>)
   \<and> (fst (authMiddleware cred w) = Inr (Inr usr) \<and>
        (u_role usr = ''Administrator'' \<or> u_role usr = ''Project Manager'') \<and>
        find (\<lambda>q. p_id q = i) (projects w) = Some p \<longrightarrow>
        status_of (fst (route_project_report cred (IdText i) w)) = Some 200)
   \<and> snd (route_project_report cred pp w) = w
   \<and> snd (getProjectReport u i w) = w"
proof -
  obtain a where auth: "authMiddleware cred w = (Inr a, w)"
    using authMiddleware_returns by blast
  note route = route_project_report_run [OF auth]
  have handler: "snd (getProjectReport u i w) = w"
    using getProjectReport_returns [of u i w] by auto
  have only: "status_of (fst (route_project_report cred pp w)) = Some 200 \<longrightarrow>
      (\<exists>usr. fst (authMiddleware cred w) = Inr (Inr usr) \<and>
             (u_role usr = ''Administrator'' \<or> u_role usr = ''Project Manager''))"
  proof (cases a)
    case (Inl r)
    then have "res_status r = 401"
      using auth authMiddleware_refusal by blast
    with Inl show ?thesis by (simp add: route status_of_def)
  next
    case (Inr req_user)
    then show ?thesis by (simp add: route auth status_of_def)
  qed
  have missing: "fst (authMiddleware cred w) = Inr (Inr usr) \<and>
        (u_role usr = ''Administrator'' \<or> u_role usr = ''Project Manager'') \<and>
        find (\<lambda>q. p_id q = i) (projects w) = None \<longrightarrow>
        fst (route_project_report cred (IdText i) w) =
          Inr \<lparr>res_status = 404, res_body = Message ''Project not found''\<rparr>"
    using auth by (auto simp: route getProjectReport_missing)
  have found: "fst (authMiddleware cred w) = Inr (Inr usr) \<and>
        (u_role usr = ''Administrator'' \<or> u_role usr = ''Project Manager'') \<and>
        find (\<lambda>q. p_id q = i) (projects w) = Some p \<longrightarrow>
        status_of (fst (route_project_report cred (IdText i) w)) = Some 200"
    using auth by (auto simp: route getProjectReport_found status_of_def)
  have unchanged: "snd (route_project_report cred pp w) = w"
  proof (cases a)
    case (Inl r)
    then show ?thesis by (simp add: route)
  next
    case (Inr req_user)
    show ?thesis
    proof (cases pp)
      case (IdText j)
      with Inr show ?thesis
        using getProjectReport_returns [of req_user j w] by (auto simp: route)
    next
      case (OtherText s)
      with Inr show ?thesis by (simp add: route)
    qed
  qed
  show ?thesis
    using only missing found unchanged handler by blast
qed

theorem report_route_contract_witness:
  "fst (authMiddleware (TokenFor 2) example_world) = Inr (Inr example_bob)
   \<and> u_role example_bob = ''Project Manager''
   \<and> find (\<lambda>q. p_id q = 11) (projects example_world) = None
   \<and> find (\<lambda>q. p_id q = 10) (projects example_world) = Some example_project
   \<and> fst (route_project_report (TokenFor 2) (IdText 11) example_world) =
        Inr \<lparr>res_status = 404, res_body = Message ''Project not found''\<rparr>
   \<and> status_of (fst (route_project_report (TokenFor 2) (IdText 10) example_world)) = Some 200
   \<and> snd (route_project_report (TokenFor 2) (IdText 10) example_world) = example_world
   \<and> status_of (fst (route_project_report (TokenFor 3) (IdText 10) example_world)) = Some 403
   \<and> status_of (fst (route_project_report NoToken (IdText 10) example_world)) = Some 401
   \<and> status_of (fst (route_project_report (TokenFor 2) (OtherText ''x'') example_world)) = Some 400"
proof -
  have h1: "fst (authMiddleware (TokenFor 2) example_world) = Inr (Inr example_bob)"
    by (simp add: authMiddleware_def io_defs User_findById_def example_world_def
        example_alice_def example_bob_def)
  have h2: "u_role example_bob = ''Project Manager''"
    by (simp add: example_bob_def)
  have h3: "find (\<lambda>q. p_id q = 11) (projects example_world) = None"
    by (simp add: example_world_def example_project_def)
  have h4: "find (\<lambda>q. p_id q = 10) (projects example_world) = Some example_project"
    by (simp add: example_world_def example_project_def)
  note r11 = report_route_contract [where cred = "TokenFor 2" and w = example_world
      and usr = example_bob and i = 11 and pp = "IdText 10"]
  note r10 = report_route_contract [where cred = "TokenFor 2" and w = example_world
      and usr = example_bob and i = 10 and p = example_project and pp = "IdText 10"]
  have a: "fst (route_project_report (TokenFor 2) (IdText 11) example_world) =
        Inr \<lparr>res_status = 404, res_body = Message ''Project not found''\<rparr>"
    using r11 h1 h2 h3 by blast
  have b: "status_of (fst (route_project_report (TokenFor 2) (IdText 10) example_world)) = Some 200"
    using r10 h1 h2 h4 by blast
  have c: "snd (route_project_report (TokenFor 2) (IdText 10) example_world) = example_world"
    using r10 by blast
  have d: "status_of (fst (route_project_report (TokenFor 3) (IdText 10) example_world)) = Some 403
   \<and> status_of (fst (route_project_report NoToken (IdText 10) example_world)) = Some 401
   \<and> status_of (fst (route_project_report (TokenFor 2) (OtherText ''x'') example_world)) = Some 400"
    by code_simp
  show ?thesis using h1 h2 h3 h4 a b c d by blast
qed

text \<open>
  Claim C9. In every world the system can reach, every stored activity-log entry has an
  action of the twelve enumerated ones. This does not rest on the handlers passing the
  right literals alone: whatever action string \<open>createProjectLog\<close> is called with, the
  schema validation of the model keeps an entry with any other action out of the
  collection.
\<close>

theorem persisted_actions_enumerated:
  assumes "reachable w"
  shows "list_all (\<lambda>l. l_action l \<in> set ProjectLog_action_enum) (logs w)
       \<and> list_all (\<lambda>l. l_action l \<in> set ProjectLog_action_enum)
           (logs (snd (createProjectLog pid uid a d w)))
       \<and> length ProjectLog_action_enum = 12
       \<and> (a \<notin> set ProjectLog_action_enum \<longrightarrow>
           logs (snd (createProjectLog pid uid a d w)) = logs w)"
proof -
  have v: "valid_actions (logs w)"
    using assms by (rule reachable_valid)
  have v': "valid_actions (logs (snd (createProjectLog pid uid a d w)))"
    using keeps_validD [OF keeps_createProjectLog v] .
  have rejected: "a \<notin> set ProjectLog_action_enum \<Longrightarrow>
      logs (snd (createProjectLog pid uid a d w)) = logs w"
    by (simp add: createProjectLog_fields [unfolded after_def])
  show ?thesis
    using v v' rejected by (simp add: valid_actions_def ProjectLog_action_enum_def)
qed

theorem persisted_actions_enumerated_witness:
  "reachable (snd (handle (UpdateProject example_bob 10
       (no_updates\<lparr>upd_status := Some ''On Hold''\<rparr>)) example_world))
   \<and> map l_action (logs (snd (handle (UpdateProject example_bob 10
       (no_updates\<lparr>upd_status := Some ''On Hold''\<rparr>)) example_world)))
        = [''Status Changed'', ''Updated'']
   \<and> list_all (\<lambda>l. l_action l \<in> set ProjectLog_action_enum)
       (logs (snd (handle (UpdateProject example_bob 10
          (no_updates\<lparr>upd_status := Some ''On Hold''\<rparr>)) example_world)))
   \<and> logs (snd (createProjectLog 10 (Some 2) ''Renamed'' JNull
       (snd (handle (UpdateProject example_bob 10
          (no_updates\<lparr>upd_status := Some ''On Hold''\<rparr>)) example_world))))
      = logs (snd (handle (UpdateProject example_bob 10
          (no_updates\<lparr>upd_status := Some ''On Hold''\<rparr>)) example_world))"
proof -
  let ?w = "snd (handle (UpdateProject example_bob 10
       (no_updates\<lparr>upd_status := Some ''On Hold''\<rparr>)) example_world)"
  have "logs example_world = []"
    by (simp add: example_world_def)
  then have "reachable example_world"
    by (rule reachable.start)
  then have r: "reachable ?w"
    by (rule reachable.request)
  have n: "''Renamed'' \<notin> set ProjectLog_action_enum"
    by (simp add: ProjectLog_action_enum_def)
  have m: "map l_action (logs ?w) = [''Status Changed'', ''Updated'']"
    by code_simp
  from persisted_actions_enumerated [OF r, of 10 "Some 2" "''Renamed''" JNull] n
  have "list_all (\<lambda>l. l_action l \<in> set ProjectLog_action_enum) (logs ?w)
    \<and> logs (snd (createProjectLog 10 (Some 2) ''Renamed'' JNull ?w)) = logs ?w"
    by simp
  with r m show ?thesis by blast
qed

text \<open>
  Claim C10, as stated, fails. The validator of the update route accepts the string
  \<open>'0'\<close> for \<open>progress\<close> and leaves it a string. The string is truthy and is not \<open>===\<close> the
  stored number 40, so the handler writes a \<open>Progress Updated\<close> entry (and a generic one),
  and the stored progress becomes 0. And with the JSON number 0 the stored progress is
  not overwritten when \<open>save()\<close> throws, here on a start date that cannot be cast.
\<close>

theorem updateProject_progress_text_zero_logged:
  "int_text_string (Plain 0) = ''0''
   \<and> map l_action
       (new_logs (updateProject example_bob 10
          (no_updates\<lparr>upd_progress := Some (IntString (Plain 0))\<rparr>)) example_world) =
       [''Progress Updated'', ''Updated'']
   \<and> map l_details
       (new_logs (updateProject example_bob 10
          (no_updates\<lparr>upd_progress := Some (IntString (Plain 0))\<rparr>)) example_world) =
       [JObj [(''from'', JNum 40), (''to'', JStr ''0'')],
        JObj [(''changes'',
               JObj [(''progress'', JObj [(''from'', JNum 40), (''to'', JStr ''0'')])])]]
   \<and> map p_progress (projects example_world) = [40]
   \<and> map p_progress
       (projects (snd (updateProject example_bob 10
          (no_updates\<lparr>upd_progress := Some (IntString (Plain 0))\<rparr>) example_world))) = [0]
   \<and> status_of (fst (updateProject example_bob 10
        (no_updates\<lparr>upd_progress := Some (IntNumber 0), upd_startDate := Some (NotADate ''soon'')\<rparr>)
        example_world)) = Some 500
   \<and> map p_progress
       (projects (snd (updateProject example_bob 10
          (no_updates\<lparr>upd_progress := Some (IntNumber 0),
             upd_startDate := Some (NotADate ''soon'')\<rparr>) example_world))) = [40]"
  by code_simp

text \<open>
  Claim C10, amended. When a project update sets \<open>progress\<close> to the JSON number 0 while the
  stored progress is not 0, the update handler writes no \<open>Progress Updated\<close> entry, and
  does not even attempt one, because the test \<open>updates.progress && ...\<close> takes the
  requested 0 as falsy. When the update is saved, that is when the handler answers 200,
  the stored progress is overwritten to 0 all the same; the handler answers 200 whenever
  every assigned value can be cast.
\<close>

theorem updateProject_progress_zero_unlogged:
  assumes "find (\<lambda>q. p_id q = i) (projects w) = Some p"
    and "0 < p_progress p"
    and "upd_progress updates = Some (IntNumber 0)"
  shows "filter (\<lambda>l. l_action l = ''Progress Updated'')
           (new_logs (updateProject req_user i updates) w) = []
       \<and> filter (\<lambda>e. e = LogAttempt ''Progress Updated'')
            (new_events (updateProject req_user i updates) w) = []
       \<and> (status_of (fst (updateProject req_user i updates w)) = Some 200 \<longrightarrow>
            map_option p_progress
              (find (\<lambda>q. p_id q = i) (projects (snd (updateProject req_user i updates w))))
            = Some 0)
       \<and> (assignment_errors updates = [] \<longrightarrow>
            status_of (fst (updateProject req_user i updates w)) = Some 200)"
proof -
  have id: "p_id p = i" using assms(1) by (rule find_key)
  have npc: "\<not> progress_changed p updates"
    using assms(3) by (simp add: progress_changed_def truthy_int_def)
  let ?p' = "(Object_assign_project p updates)\<lparr>p_lastUpdate := clock w\<rparr>"
  have id': "p_id ?p' = i" using id by (simp add: Object_assign_project_def)
  have pr: "p_progress ?p' = 0"
    using assms(3) by (simp add: Object_assign_project_def assign_opt_def int_value_number_def)
  have fu: "\<And>ps. find (\<lambda>q. p_id q = i) (upsert p_id ?p' ps) = Some ?p'"
    using find_upsert[of p_id ?p'] id' by simp
  show ?thesis
    using assms(1) npc id pr
    by (cases "upd_team updates"; cases "assignment_errors updates")
       (simp_all add: updateProject_def new_logs_def new_events_def status_of_def run_rules
          world_fields Object_assign_project_fields assign_opt_def filter_notin_self when_io_def
          fu log_entry_def)
qed

theorem updateProject_progress_zero_unlogged_witness:
  "find (\<lambda>q. p_id q = 10) (projects example_world) = Some example_project
   \<and> 0 < p_progress example_project
   \<and> upd_progress (no_updates\<lparr>upd_progress := Some (IntNumber 0)\<rparr>) = Some (IntNumber 0)
   \<and> assignment_errors (no_updates\<lparr>upd_progress := Some (IntNumber 0)\<rparr>) = []
   \<and> status_of (fst (updateProject example_bob 10
        (no_updates\<lparr>upd_progress := Some (IntNumber 0)\<rparr>) example_world)) = Some 200
   \<and> filter (\<lambda>l. l_action l = ''Progress Updated'')
        (new_logs (updateProject example_bob 10 (no_updates\<lparr>upd_progress := Some (IntNumber 0)\<rparr>))
           example_world) = []
   \<and> map_option p_progress
        (find (\<lambda>q. p_id q = 10)
           (projects (snd (updateProject example_bob 10
              (no_updates\<lparr>upd_progress := Some (IntNumber 0)\<rparr>) example_world)))) = Some 0"
proof -
  have h1: "find (\<lambda>q. p_id q = 10) (projects example_world) = Some example_project"
    by (simp add: example_world_def example_project_def)
  have h2: "0 < p_progress example_project"
    by (simp add: example_project_def)
  have h3: "upd_progress (no_updates\<lparr>upd_progress := Some (IntNumber 0)\<rparr>) = Some (IntNumber 0)"
    by simp
  have h4: "assignment_errors (no_updates\<lparr>upd_progress := Some (IntNumber 0)\<rparr>) = []"
    by (simp add: assignment_errors_def no_updates_def)
  show ?thesis
    using h1 h2 h3 h4 updateProject_progress_zero_unlogged [OF h1 h2 h3, of example_bob]
    by simp
qed

end
